theory Spec2Isabelle
  imports Main
begin

text \<open>
  The Supabase edge functions of the repository: the shared middleware
  (\<open>_shared/middleware.ts\<close>), the login and get-user endpoints built on it, the register
  endpoint and the inlined login endpoint. Functions keep the names of the source. The
  identity provider, the data store and the environment are parameters (a \<open>world\<close>); an
  \<open>async\<close> function is a function that returns the log of the calls it made together
  with its result or the value it threw.
\<close>

section \<open>JavaScript strings and values\<close>

text \<open>
  A JavaScript string is modelled as the list of its code units; the type \<open>char\<close> carries
  the code units below 256, which covers every string literal of the source and every
  value \<open>Headers.get\<close> can return (a byte string).
\<close>

fun startsWith :: "string \<Rightarrow> string \<Rightarrow> bool" where
  "startsWith s [] = True"
| "startsWith [] (p # ps) = False"
| "startsWith (c # cs) (p # ps) = (c = p \<and> startsWith cs ps)"

fun includesStr :: "string \<Rightarrow> string \<Rightarrow> bool" where
  "includesStr [] sub = (sub = [])"
| "includesStr (c # cs) sub = (startsWith (c # cs) sub \<or> includesStr cs sub)"

text \<open>
  \<open>s.replace(pat, rep)\<close> with a string pattern replaces the first occurrence only. The
  source calls it with the replacement \<open>''\<close>, so the \<open>$\<close> patterns of a replacement
  string play no part.
\<close>

fun replace :: "string \<Rightarrow> string \<Rightarrow> string \<Rightarrow> string" where
  "replace [] pat rep = (if pat = [] then rep else [])"
| "replace (c # cs) pat rep =
     (if startsWith (c # cs) pat then rep @ drop (length pat) (c # cs)
      else c # replace cs pat rep)"

text \<open>The code units below 256 that \<open>trim\<close> removes: TAB, LF, VT, FF, CR, SP and NBSP.\<close>

definition isWhiteSpace :: "char \<Rightarrow> bool" where
  "isWhiteSpace c =
     (c = CHR 0x09 \<or> c = CHR 0x0A \<or> c = CHR 0x0B \<or> c = CHR 0x0C \<or> c = CHR 0x0D
      \<or> c = CHR 0x20 \<or> c = CHR 0xA0)"

definition trim :: "string \<Rightarrow> string" where
  "trim s = rev (dropWhile isWhiteSpace (rev (dropWhile isWhiteSpace s)))"

fun join :: "string \<Rightarrow> string list \<Rightarrow> string" where
  "join sep [] = []"
| "join sep [x] = x"
| "join sep (x # y # ys) = x @ sep @ join sep (y # ys)"

text \<open>
  Parsed JSON. Numbers are kept as integers (zero is the falsy one). An object is the
  list of its properties; a property whose value is \<open>undefined\<close> is absent, as
  \<open>JSON.stringify\<close> leaves it out.
\<close>

datatype json =
    JNull
  | JBool bool
  | JNum int
  | JStr string
  | JArr "json list"
  | JObj "(string \<times> json) list"

text \<open>A value that may be \<open>undefined\<close> is a \<open>json option\<close>; \<open>truthy\<close> is what \<open>!v\<close> negates.\<close>

fun truthy :: "json option \<Rightarrow> bool" where
  "truthy None = False"
| "truthy (Some JNull) = False"
| "truthy (Some (JBool b)) = b"
| "truthy (Some (JNum n)) = (n \<noteq> 0)"
| "truthy (Some (JStr s)) = (s \<noteq> [])"
| "truthy (Some (JArr xs)) = True"
| "truthy (Some (JObj ps)) = True"

text \<open>\<open>Deno.env.get\<close> yields a string or \<open>undefined\<close>; the empty string is falsy too.\<close>

fun present :: "string option \<Rightarrow> bool" where
  "present None = False"
| "present (Some s) = (s \<noteq> [])"

text \<open>An object literal handed to \<open>JSON.stringify\<close>: undefined properties are dropped.\<close>

definition object :: "(string \<times> json option) list \<Rightarrow> json" where
  "object ps = JObj (List.map_filter (\<lambda>(k, v). map_option (Pair k) v) ps)"

text \<open>Property access on a parsed value that is not \<open>null\<close>.\<close>

fun getProp :: "json \<Rightarrow> string \<Rightarrow> json option" where
  "getProp (JObj ps) k = map_of ps k"
| "getProp v k = None"

section \<open>Responses\<close>

datatype body = Text string | Json json

record response =
  status :: nat
  headers :: "(string \<times> string) list"
  body :: body

text \<open>What a thrown value looks like to a \<open>catch\<close> clause that reads \<open>error.message\<close>:
  an \<open>Error\<close> (or any object) with a string in \<open>message\<close>, or any other value (a string,
  a number, an object without \<open>message\<close>, \<open>null\<close>, \<open>undefined\<close>), on which
  \<open>error.message\<close> is not a string.\<close>

datatype thrown = Error string | NonError

text \<open>The settled state of the promise an \<open>async\<close> function returns.\<close>

datatype settled = Resolved response | Rejected

definition corsHeaders :: "(string \<times> string) list" where
  "corsHeaders =
     [(''Access-Control-Allow-Origin'', ''*''),
      (''Access-Control-Allow-Headers'', ''authorization, x-client-info, apikey, content-type''),
      (''Access-Control-Allow-Methods'', ''GET, POST, PUT, DELETE, OPTIONS''),
      (''Content-Type'', ''application/json'')]"

text \<open>The object spread \<open>{ ...a, ...b }\<close>: the keys of \<open>a\<close> in order, overridden by \<open>b\<close>,
  then the keys only \<open>b\<close> has.\<close>

definition spread :: "(string \<times> string) list \<Rightarrow> (string \<times> string) list \<Rightarrow> (string \<times> string) list" where
  "spread a b =
     map (\<lambda>(k, v). (k, case map_of b k of Some v' \<Rightarrow> v' | None \<Rightarrow> v)) a
     @ filter (\<lambda>(k, v). k \<notin> set (map fst a)) b"

definition createErrorResponse :: "string \<Rightarrow> nat \<Rightarrow> (string \<times> string) list \<Rightarrow> response" where
  "createErrorResponse message st additionalHeaders =
     \<lparr>status = st, headers = spread corsHeaders additionalHeaders,
      body = Json (object [(''error'', Some (JStr message))])\<rparr>"

definition createSuccessResponse :: "json \<Rightarrow> nat \<Rightarrow> (string \<times> string) list \<Rightarrow> response" where
  "createSuccessResponse data st additionalHeaders =
     \<lparr>status = st, headers = spread corsHeaders additionalHeaders, body = Json data\<rparr>"

section \<open>The external collaborators\<close>

record firebase_user =
  localId :: string
  email :: string
  emailVerified :: bool
  displayName :: "string option"
  providerUserInfo :: "json list option"
  photoUrl :: "string option"
  passwordHash :: "string option"
  passwordUpdatedAt :: "int option"
  validSince :: "string option"
  disabled :: "bool option"
  lastLoginAt :: "string option"
  createdAt :: "string option"
  customAuth :: "bool option"

text \<open>What the handlers read of the provider's answer to a sign-up or a password sign-in;
  \<open>accountId\<close> is its \<open>localId\<close>.\<close>

record token_bundle =
  accountId :: string
  idToken :: string
  refreshToken :: string
  expiresIn :: string

text \<open>
  A row of the \<open>users\<close> table. \<open>select('*')\<close> returns every column of the row (a NULL as
  \<open>JNull\<close>): the six columns the code reads, and whatever else the table holds.
\<close>

record db_user =
  row_id :: json
  row_name :: json
  row_email :: json
  row_firebase_uid :: json
  row_created_at :: json
  row_updated_at :: json
  row_other :: "(string \<times> json) list"

text \<open>The \<open>{ data, error }\<close> a query resolves to; the client reports a failed query through
  \<open>error\<close> (here its \<open>message\<close>) and does not raise.\<close>

record query_result =
  dbData :: "db_user option"
  dbError :: "string option"

record supabase_client =
  supabaseUrl :: string
  supabaseKey :: string

text \<open>
  The outcome of one call to the identity provider, as the code observes it: the
  \<open>fetch\<close>, the decoding of its body or the reading of the decoded value raised an
  \<open>Error\<close> with a message; the status was not 2xx and the body's \<open>error?.message\<close> was
  this (\<open>None\<close> for undefined); or the status was 2xx with this payload.
\<close>

datatype 'a fetched = Raised string | NotOk "string option" | Ok 'a

datatype endpoint = AccountsLookup | SignInWithPassword | SignUp | AccountsDelete

text \<open>
  The world outside one request. Every collaborator is called at most once per request
  with given arguments, so each is a function of its arguments: the API key and the
  JSON body for the provider, the client and the filter or the row for the data store.
  \<open>createClientError\<close> is the message of the \<open>Error\<close> the client library raises for a URL
  and a key it refuses, if it does. \<open>lengthBelow6\<close> answers \<open>v < 6\<close> for a \<open>length\<close>
  property that is a string, an array or an object, which JavaScript coerces first.
\<close>

record world =
  env :: "string \<Rightarrow> string option"
  accountsLookup :: "string \<Rightarrow> json \<Rightarrow> firebase_user list option fetched"
  signInWithPassword :: "string \<Rightarrow> json \<Rightarrow> token_bundle fetched"
  signUp :: "string \<Rightarrow> json \<Rightarrow> token_bundle fetched"
  accountsDelete :: "string \<Rightarrow> json \<Rightarrow> unit fetched"
  createClientError :: "string \<Rightarrow> string \<Rightarrow> string option"
  usersSelect :: "supabase_client \<Rightarrow> string \<Rightarrow> json \<Rightarrow> query_result"
  usersInsert :: "supabase_client \<Rightarrow> json \<Rightarrow> query_result"
  lengthBelow6 :: "json \<Rightarrow> bool"

record request =
  "method" :: string
  authorization :: "string option"
  searchParams :: "string \<Rightarrow> string option"
  jsonBody :: "string + json"

text \<open>\<open>authorization\<close> is \<open>req.headers.get('Authorization')\<close>, \<open>searchParams\<close> is
  \<open>new URL(req.url).searchParams.get\<close>, \<open>jsonBody\<close> is what \<open>await req.json()\<close> gives: the
  parsed body, or the message of the error it raises.\<close>

section \<open>Effects\<close>

text \<open>Every call that leaves the function is logged, in order.\<close>

datatype event =
    EnvGet string
  | Fetch endpoint string json
  | CreateClient string string
  | Select string json
  | Insert json
  | HandlerCall
  | ConsoleError thrown

text \<open>A computation: the calls it made, and the value it returned or what it threw.\<close>

type_synonym 'a eff = "event list \<times> (thrown + 'a)"

definition returnEff :: "'a \<Rightarrow> 'a eff" where
  "returnEff x = ([], Inr x)"

definition throwEff :: "thrown \<Rightarrow> 'a eff" where
  "throwEff e = ([], Inl e)"

definition bindEff :: "'a eff \<Rightarrow> ('a \<Rightarrow> 'b eff) \<Rightarrow> 'b eff" where
  "bindEff m f =
     (case m of
        (l, Inl e) \<Rightarrow> (l, Inl e)
      | (l, Inr x) \<Rightarrow> (case f x of (l', r) \<Rightarrow> (l @ l', r)))"

definition tryCatch :: "'a eff \<Rightarrow> (thrown \<Rightarrow> 'a eff) \<Rightarrow> 'a eff" where
  "tryCatch m h =
     (case m of
        (l, Inl e) \<Rightarrow> (case h e of (l', r) \<Rightarrow> (l @ l', r))
      | (l, Inr x) \<Rightarrow> (l, Inr x))"

definition envGet :: "world \<Rightarrow> string \<Rightarrow> string option eff" where
  "envGet w k = ([EnvGet k], Inr (env w k))"

definition fetch :: "endpoint \<Rightarrow> string \<Rightarrow> json \<Rightarrow> 'a fetched \<Rightarrow> 'a fetched eff" where
  "fetch ep key payload answer = ([Fetch ep key payload], Inr answer)"

text \<open>\<open>m || d\<close> on a message that may be undefined or empty.\<close>

fun orDefault :: "string option \<Rightarrow> string \<Rightarrow> string" where
  "orDefault None d = d"
| "orDefault (Some s) d = (if s = [] then d else s)"

text \<open>\<open>${error.message}\<close> in a template literal. The only \<open>try\<close> that uses it throws
  nothing but \<open>Error\<close> values, so its second equation is never reached.\<close>

fun messageText :: "thrown \<Rightarrow> string" where
  "messageText (Error m) = m"
| "messageText NonError = ''undefined''"

section \<open>The shared middleware\<close>

record middleware_context =
  firebaseUser :: "firebase_user option"
  supabaseClient :: supabase_client
  url :: "string \<Rightarrow> string option"

record options =
  requireAuth :: "bool option"
  validateEnv :: "bool option"

definition handleCorsPreflightRequest :: "request \<Rightarrow> response option" where
  "handleCorsPreflightRequest req =
     (if method req = ''OPTIONS''
      then Some \<lparr>status = 200, headers = corsHeaders, body = Text ''ok''\<rparr>
      else None)"

text \<open>The library's \<open>createClient(url, key, ...)\<close>.\<close>

definition createClient :: "world \<Rightarrow> string \<Rightarrow> string \<Rightarrow> supabase_client eff" where
  "createClient w u k =
     ([CreateClient u k],
      case createClientError w u k of
        Some m \<Rightarrow> Inl (Error m)
      | None \<Rightarrow> Inr \<lparr>supabaseUrl = u, supabaseKey = k\<rparr>)"

definition createSupabaseClient :: "world \<Rightarrow> supabase_client eff" where
  "createSupabaseClient w =
     bindEff (envGet w ''SUPABASE_URL'') (\<lambda>url.
     bindEff (envGet w ''SUPABASE_SERVICE_ROLE_KEY'') (\<lambda>serviceKey.
       if \<not> present url \<or> \<not> present serviceKey
       then throwEff (Error ''Missing Supabase configuration: SUPABASE_URL and SUPABASE_SERVICE_ROLE_KEY are required'')
       else
         createClient w (orDefault url []) (orDefault serviceKey [])))"

definition verifyFirebaseToken :: "world \<Rightarrow> string \<Rightarrow> firebase_user eff" where
  "verifyFirebaseToken w token =
     bindEff (envGet w ''FIREBASE_WEB_API_KEY'') (\<lambda>firebaseWebApiKey.
       if \<not> present firebaseWebApiKey
       then throwEff (Error ''Firebase Web API Key not configured'')
       else
         (let key = orDefault firebaseWebApiKey []; payload = object [(''idToken'', Some (JStr token))] in
          tryCatch
            (bindEff (fetch AccountsLookup key payload (accountsLookup w key payload)) (\<lambda>response.
               case response of
                 Raised m \<Rightarrow> throwEff (Error m)
               | NotOk errorMessage \<Rightarrow>
                   throwEff (Error (orDefault errorMessage ''Invalid or expired token''))
               | Ok users \<Rightarrow>
                   (case users of
                      None \<Rightarrow> throwEff (Error ''Invalid token: No user found'')
                    | Some [] \<Rightarrow> throwEff (Error ''Invalid token: No user found'')
                    | Some (u # us) \<Rightarrow> returnEff u)))
            (\<lambda>error.
               throwEff (Error (''Firebase token verification failed: '' @ messageText error)))))"

definition extractAndVerifyToken :: "world \<Rightarrow> request \<Rightarrow> firebase_user eff" where
  "extractAndVerifyToken w req =
     (let authHeader = authorization req in
      if \<not> present authHeader \<or> \<not> startsWith (orDefault authHeader []) ''Bearer ''
      then throwEff (Error ''Unauthorized: No valid Bearer token provided'')
      else
        (let token = trim (replace (orDefault authHeader []) ''Bearer '' []) in
         if token = [] then throwEff (Error ''Unauthorized: Empty token provided'')
         else verifyFirebaseToken w token))"

definition authenticateWithFirebase :: "world \<Rightarrow> json option \<Rightarrow> json option \<Rightarrow> token_bundle eff" where
  "authenticateWithFirebase w email' password =
     bindEff (envGet w ''FIREBASE_WEB_API_KEY'') (\<lambda>firebaseWebApiKey.
       if \<not> present firebaseWebApiKey
       then throwEff (Error ''Firebase Web API Key not configured'')
       else
         (let key = orDefault firebaseWebApiKey [];
              payload = object [(''email'', email'), (''password'', password),
                                (''returnSecureToken'', Some (JBool True))] in
          bindEff (fetch SignInWithPassword key payload (signInWithPassword w key payload)) (\<lambda>response.
            case response of
              Raised m \<Rightarrow> throwEff (Error m)
            | NotOk errorMessage \<Rightarrow>
                throwEff (Error (orDefault errorMessage ''Invalid login credentials''))
            | Ok bundle \<Rightarrow> returnEff bundle)))"

text \<open>\<open>data[field]\<close> raises a \<open>TypeError\<close> when \<open>data\<close> is \<open>null\<close>.\<close>

definition validateRequiredFields :: "json \<Rightarrow> string list \<Rightarrow> unit eff" where
  "validateRequiredFields data requiredFields =
     (if data = JNull \<and> requiredFields \<noteq> []
      then throwEff (Error (''Cannot read properties of null (reading '' @ [CHR 0x27]
                            @ hd requiredFields @ [CHR 0x27] @ '')''))
      else
        (let missingFields = filter (\<lambda>field. \<not> truthy (getProp data field)) requiredFields in
         if missingFields \<noteq> []
         then throwEff (Error (''Missing required fields: '' @ join '', '' missingFields))
         else returnEff ()))"

definition getRequiredQueryParam :: "(string \<Rightarrow> string option) \<Rightarrow> string \<Rightarrow> string eff" where
  "getRequiredQueryParam u paramName =
     (let v = u paramName in
      if \<not> present v
      then throwEff (Error (''Missing required query parameter: '' @ paramName))
      else returnEff (orDefault v []))"

definition requiredEnvVars :: "string list" where
  "requiredEnvVars = [''SUPABASE_URL'', ''SUPABASE_SERVICE_ROLE_KEY'', ''FIREBASE_WEB_API_KEY'']"

text \<open>The \<open>validateEnv\<close> step: one read per required variable, then the check.\<close>

definition validateEnvStep :: "world \<Rightarrow> unit eff" where
  "validateEnvStep w =
     (let missingEnvVars = filter (\<lambda>envVar. \<not> present (env w envVar)) requiredEnvVars in
      (map EnvGet requiredEnvVars,
       if missingEnvVars \<noteq> []
       then Inl (Error (''Missing environment variables: '' @ join '', '' missingEnvVars))
       else Inr ()))"

type_synonym handler = "request \<Rightarrow> middleware_context \<Rightarrow> response eff"

text \<open>The body of the \<open>try\<close> of \<open>withMiddleware\<close>.\<close>

definition tryBlock :: "world \<Rightarrow> request \<Rightarrow> handler \<Rightarrow> options \<Rightarrow> response eff" where
  "tryBlock w req handler opts =
     (case handleCorsPreflightRequest req of
        Some corsResponse \<Rightarrow> returnEff corsResponse
      | None \<Rightarrow>
          bindEff (if validateEnv opts = Some True then validateEnvStep w else returnEff ()) (\<lambda>_.
          bindEff (createSupabaseClient w) (\<lambda>client.
          bindEff (if requireAuth opts = Some True
                   then bindEff (extractAndVerifyToken w req) (\<lambda>u. returnEff (Some u))
                   else returnEff None) (\<lambda>user.
          bindEff ([HandlerCall], Inr ()) (\<lambda>_.
            handler req \<lparr>firebaseUser = user, supabaseClient = client, url = searchParams req\<rparr>)))))"

text \<open>
  The \<open>catch\<close> of \<open>withMiddleware\<close>. \<open>error.message.includes\<close> is a call on
  \<open>error.message\<close>: on a thrown value without a string message it raises a
  \<open>TypeError\<close> inside the \<open>catch\<close>, and the promise of \<open>withMiddleware\<close> rejects.
\<close>

definition catchBlock :: "thrown \<Rightarrow> event list \<times> settled" where
  "catchBlock error =
     ([ConsoleError error],
      case error of
        NonError \<Rightarrow> Rejected
      | Error message \<Rightarrow>
          Resolved
            (if includesStr message ''Unauthorized'' then createErrorResponse message 401 []
             else if includesStr message ''Missing required'' then createErrorResponse message 400 []
             else if includesStr message ''not found'' \<or> includesStr message ''Not found''
               then createErrorResponse message 404 []
             else if includesStr message ''Forbidden'' then createErrorResponse message 403 []
             else createErrorResponse (orDefault (Some message) ''Internal server error'') 500 []))"

definition withMiddleware :: "world \<Rightarrow> request \<Rightarrow> handler \<Rightarrow> options \<Rightarrow> event list \<times> settled" where
  "withMiddleware w req handler opts =
     (case tryBlock w req handler opts of
        (l, Inr r) \<Rightarrow> (l, Resolved r)
      | (l, Inl error) \<Rightarrow> (case catchBlock error of (l', s) \<Rightarrow> (l @ l', s)))"

definition sanitizeUserData :: "db_user \<Rightarrow> json" where
  "sanitizeUserData user =
     object [(''id'', Some (row_id user)),
             (''name'', Some (row_name user)),
             (''email'', Some (row_email user)),
             (''firebase_uid'', Some (row_firebase_uid user)),
             (''created_at'', Some (row_created_at user)),
             (''updated_at'', Some (row_updated_at user))]"

section \<open>The endpoints built on the middleware\<close>

text \<open>The message of the \<open>TypeError\<close> that destructuring \<open>null\<close> raises.\<close>

definition destructureNull :: "string \<Rightarrow> string \<Rightarrow> string" where
  "destructureNull prop source =
     ''Cannot destructure property '' @ [CHR 0x27] @ prop @ [CHR 0x27] @ '' of ''
     @ [CHR 0x27] @ source @ [CHR 0x27] @ '' as it is null.''"

text \<open>\<open>.from('users').select('*').eq(column, v).single()\<close>\<close>

definition selectSingle :: "world \<Rightarrow> supabase_client \<Rightarrow> string \<Rightarrow> json \<Rightarrow> query_result eff" where
  "selectSingle w client column v = ([Select column v], Inr (usersSelect w client column v))"

definition loginHandler :: "world \<Rightarrow> handler" where
  "loginHandler w req context =
     (case jsonBody req of
        Inl m \<Rightarrow> throwEff (Error m)
      | Inr requestBody \<Rightarrow>
          if requestBody = JNull
          then throwEff (Error (destructureNull ''email'' ''requestBody''))
          else
            (let email' = getProp requestBody ''email'';
                 password = getProp requestBody ''password'' in
             bindEff (validateRequiredFields requestBody [''email'', ''password'']) (\<lambda>_.
             bindEff (authenticateWithFirebase w email' password) (\<lambda>bundle.
             bindEff (selectSingle w (supabaseClient context) ''firebase_uid'' (JStr (accountId bundle)))
               (\<lambda>res.
                  case dbData res of
                    None \<Rightarrow> throwEff (Error ''User not found in database'')
                  | Some dbUser \<Rightarrow>
                      if dbError res \<noteq> None
                      then throwEff (Error ''User not found in database'')
                      else returnEff
                        (createSuccessResponse
                           (object [(''success'', Some (JBool True)),
                                    (''user'', Some (sanitizeUserData dbUser)),
                                    (''firebase_token'', Some (JStr (idToken bundle))),
                                    (''refresh_token'', Some (JStr (refreshToken bundle))),
                                    (''expires_in'', Some (JStr (expiresIn bundle)))])
                           200 []))))))"

definition login :: "world \<Rightarrow> request \<Rightarrow> event list \<times> settled" where
  "login w req =
     withMiddleware w req (loginHandler w) \<lparr>requireAuth = Some False, validateEnv = Some True\<rparr>"

definition getUserHandler :: "world \<Rightarrow> handler" where
  "getUserHandler w req context =
     bindEff (getRequiredQueryParam (url context) ''id'') (\<lambda>userId.
     bindEff (selectSingle w (supabaseClient context) ''id'' (JStr userId)) (\<lambda>res.
       case dbData res of
         None \<Rightarrow> throwEff (Error ''User not found'')
       | Some dbUser \<Rightarrow>
           if dbError res \<noteq> None then throwEff (Error ''User not found'')
           else if Some (row_firebase_uid dbUser)
                   \<noteq> map_option (\<lambda>u. JStr (localId u)) (firebaseUser context)
           then throwEff (Error ''Forbidden: You can only access your own user data'')
           else returnEff
             (createSuccessResponse
                (object [(''success'', Some (JBool True)),
                         (''user'', Some (sanitizeUserData dbUser)),
                         (''authenticated_as'',
                          Some (object
                            [(''email'', map_option (\<lambda>u. JStr (email u)) (firebaseUser context)),
                             (''firebase_uid'',
                              map_option (\<lambda>u. JStr (localId u)) (firebaseUser context))]))])
                200 [])))"

definition getUser :: "world \<Rightarrow> request \<Rightarrow> event list \<times> settled" where
  "getUser w req =
     withMiddleware w req (getUserHandler w) \<lparr>requireAuth = Some True, validateEnv = Some True\<rparr>"

section \<open>The register endpoint\<close>

text \<open>The register endpoint does not go through the middleware; it has its own headers,
  its own \<open>try\<close> and its own \<open>catch\<close>.\<close>

definition registerCorsHeaders :: "(string \<times> string) list" where
  "registerCorsHeaders =
     [(''Access-Control-Allow-Origin'', ''*''),
      (''Access-Control-Allow-Headers'', ''authorization, x-client-info, apikey, content-type'')]"

definition jsonResponse :: "json \<Rightarrow> nat \<Rightarrow> response" where
  "jsonResponse v st =
     \<lparr>status = st,
      headers = spread registerCorsHeaders [(''Content-Type'', ''application/json'')],
      body = Json v\<rparr>"

text \<open>\<open>password.length\<close> of a truthy value, and \<open>password.length < 6\<close>.\<close>

fun lengthOf :: "json \<Rightarrow> json option" where
  "lengthOf (JStr s) = Some (JNum (int (length s)))"
| "lengthOf (JArr xs) = Some (JNum (int (length xs)))"
| "lengthOf (JObj ps) = map_of ps ''length''"
| "lengthOf v = None"

fun lessThan6 :: "world \<Rightarrow> json option \<Rightarrow> bool" where
  "lessThan6 w None = False"
| "lessThan6 w (Some JNull) = True"
| "lessThan6 w (Some (JBool b)) = True"
| "lessThan6 w (Some (JNum n)) = (n < 6)"
| "lessThan6 w (Some v) = lengthBelow6 w v"

definition nullish :: "string option \<Rightarrow> string" where
  "nullish v = (case v of None \<Rightarrow> [] | Some s \<Rightarrow> s)"

definition registerTry :: "world \<Rightarrow> request \<Rightarrow> response eff" where
  "registerTry w req =
     (case jsonBody req of
        Inl m \<Rightarrow> throwEff (Error m)
      | Inr parsed \<Rightarrow>
          if parsed = JNull
          then throwEff (Error (destructureNull ''name'' ''(intermediate value)''))
          else
            (let name = getProp parsed ''name'';
                 email' = getProp parsed ''email'';
                 password = getProp parsed ''password'' in
             if \<not> truthy name \<or> \<not> truthy email' \<or> \<not> truthy password
             then returnEff (jsonResponse (object [(''error'', Some (JStr
                    ''Missing required fields: name, email, and password are required''))]) 400)
             else if lessThan6 w (case password of None \<Rightarrow> None | Some p \<Rightarrow> lengthOf p)
             then returnEff (jsonResponse (object [(''error'', Some (JStr
                    ''Password must be at least 6 characters long''))]) 400)
             else
               bindEff (envGet w ''FIREBASE_WEB_API_KEY'') (\<lambda>firebaseWebApiKey.
                 if \<not> present firebaseWebApiKey
                 then throwEff (Error ''Firebase Web API Key not configured'')
                 else
                   (let key = orDefault firebaseWebApiKey [];
                        payload = object [(''email'', email'), (''password'', password),
                                          (''displayName'', name),
                                          (''returnSecureToken'', Some (JBool True))] in
                    bindEff (fetch SignUp key payload (signUp w key payload)) (\<lambda>firebaseResponse.
                      case firebaseResponse of
                        Raised m \<Rightarrow> throwEff (Error m)
                      | NotOk errorMessage \<Rightarrow>
                          throwEff (Error (orDefault errorMessage ''Failed to create Firebase user''))
                      | Ok bundle \<Rightarrow>
                          bindEff (envGet w ''SUPABASE_URL'') (\<lambda>u.
                          bindEff (envGet w ''SUPABASE_SERVICE_ROLE_KEY'') (\<lambda>k.
                          bindEff (createClient w (nullish u) (nullish k)) (\<lambda>client.
                          (let row = object [(''name'', name), (''email'', email'),
                                             (''firebase_uid'', Some (JStr (accountId bundle)))] in
                           bindEff ([Insert row], Inr (usersInsert w client row)) (\<lambda>res.
                             case dbError res of
                               Some m \<Rightarrow>
                                 (let del = object [(''idToken'', Some (JStr (idToken bundle)))] in
                                  bindEff (fetch AccountsDelete key del (accountsDelete w key del))
                                    (\<lambda>answer.
                                       case answer of
                                         Raised m' \<Rightarrow> throwEff (Error m')
                                       | NotOk _ \<Rightarrow> throwEff (Error (''Database error: '' @ m))
                                       | Ok _ \<Rightarrow> throwEff (Error (''Database error: '' @ m))))
                             | None \<Rightarrow>
                                 (case dbData res of
                                    None \<Rightarrow>
                                      throwEff (Error (''Cannot read properties of null (reading ''
                                                       @ [CHR 0x27] @ ''id'' @ [CHR 0x27] @ '')''))
                                  | Some dbUser \<Rightarrow>
                                      returnEff (jsonResponse
                                        (object [(''success'', Some (JBool True)),
                                                 (''user'', Some (object
                                                    [(''id'', Some (row_id dbUser)),
                                                     (''name'', Some (row_name dbUser)),
                                                     (''email'', Some (row_email dbUser)),
                                                     (''firebase_uid'', Some (row_firebase_uid dbUser)),
                                                     (''created_at'', Some (row_created_at dbUser))]))])
                                        201))))))))))))"

text \<open>The \<open>catch\<close> of the register endpoint reads \<open>error.message\<close> only through \<open>||\<close>.\<close>

definition register :: "world \<Rightarrow> request \<Rightarrow> event list \<times> response" where
  "register w req =
     (if method req = ''OPTIONS''
      then ([], \<lparr>status = 200, headers = registerCorsHeaders, body = Text ''ok''\<rparr>)
      else
        (case registerTry w req of
           (l, Inr r) \<Rightarrow> (l, r)
         | (l, Inl error) \<Rightarrow>
             (l @ [ConsoleError error],
              jsonResponse
                (object [(''error'', Some (JStr
                   (orDefault (case error of Error m \<Rightarrow> Some m | NonError \<Rightarrow> None)
                      ''Internal server error during registration'')))])
                500)))"

section \<open>The inlined login endpoint\<close>

text \<open>
  The repository also holds a login endpoint that does not use the middleware and
  answers each failure where it detects it. Its CORS headers and its JSON responses are
  those of the register endpoint.
\<close>

definition loginInlinedTry :: "world \<Rightarrow> request \<Rightarrow> response eff" where
  "loginInlinedTry w req =
     (case jsonBody req of
        Inl m \<Rightarrow> throwEff (Error m)
      | Inr parsed \<Rightarrow>
          if parsed = JNull
          then throwEff (Error (destructureNull ''email'' ''(intermediate value)''))
          else
            (let email' = getProp parsed ''email'';
                 password = getProp parsed ''password'' in
             if \<not> truthy email' \<or> \<not> truthy password
             then returnEff (jsonResponse (object [(''error'', Some (JStr
                    ''Missing required fields: email and password are required''))]) 400)
             else
               bindEff (envGet w ''FIREBASE_WEB_API_KEY'') (\<lambda>firebaseWebApiKey.
                 if \<not> present firebaseWebApiKey
                 then throwEff (Error ''Firebase Web API Key not configured'')
                 else
                   (let key = orDefault firebaseWebApiKey [];
                        payload = object [(''email'', email'), (''password'', password),
                                          (''returnSecureToken'', Some (JBool True))] in
                    bindEff (fetch SignInWithPassword key payload (signInWithPassword w key payload))
                      (\<lambda>firebaseResponse.
                         case firebaseResponse of
                           Raised m \<Rightarrow> throwEff (Error m)
                         | NotOk errorMessage \<Rightarrow>
                             returnEff (jsonResponse (object [(''error'', Some (JStr
                               (orDefault errorMessage ''Invalid login credentials'')))]) 401)
                         | Ok issued \<Rightarrow>
                             bindEff (envGet w ''SUPABASE_URL'') (\<lambda>u.
                             bindEff (envGet w ''SUPABASE_SERVICE_ROLE_KEY'') (\<lambda>k.
                             bindEff (createClient w (nullish u) (nullish k)) (\<lambda>client.
                             bindEff (selectSingle w client ''firebase_uid'' (JStr (accountId issued)))
                               (\<lambda>res.
                                  case dbData res of
                                    None \<Rightarrow>
                                      returnEff (jsonResponse (object [(''error'', Some (JStr
                                        ''User not found in database''))]) 404)
                                  | Some dbUser \<Rightarrow>
                                      if dbError res \<noteq> None
                                      then returnEff (jsonResponse (object [(''error'', Some (JStr
                                             ''User not found in database''))]) 404)
                                      else returnEff (jsonResponse
                                        (object [(''success'', Some (JBool True)),
                                                 (''user'', Some (object
                                                    [(''id'', Some (row_id dbUser)),
                                                     (''name'', Some (row_name dbUser)),
                                                     (''email'', Some (row_email dbUser)),
                                                     (''firebase_uid'', Some (row_firebase_uid dbUser)),
                                                     (''created_at'', Some (row_created_at dbUser))])),
                                                 (''firebase_token'', Some (JStr (idToken issued))),
                                                 (''refresh_token'', Some (JStr (refreshToken issued))),
                                                 (''expires_in'', Some (JStr (expiresIn issued)))])
                                        200))))))))))"

definition loginInlined :: "world \<Rightarrow> request \<Rightarrow> event list \<times> response" where
  "loginInlined w req =
     (if method req = ''OPTIONS''
      then ([], \<lparr>status = 200, headers = registerCorsHeaders, body = Text ''ok''\<rparr>)
      else
        (case loginInlinedTry w req of
           (l, Inr r) \<Rightarrow> (l, r)
         | (l, Inl error) \<Rightarrow>
             (l @ [ConsoleError error],
              jsonResponse
                (object [(''error'', Some (JStr
                   (orDefault (case error of Error m \<Rightarrow> Some m | NonError \<Rightarrow> None)
                      ''Internal server error during login'')))])
                500)))"

section \<open>The error taxonomy as specified\<close>

text \<open>The status the specification assigns to a failure message, in its own order:
  "Unauthorized", then "Missing required", then "not found" or "Not found", then
  "Forbidden", otherwise 500.\<close>

definition specStatus :: "string \<Rightarrow> nat" where
  "specStatus message =
     (if includesStr message ''Unauthorized'' then 401
      else if includesStr message ''Missing required'' then 400
      else if includesStr message ''not found'' \<or> includesStr message ''Not found'' then 404
      else if includesStr message ''Forbidden'' then 403
      else 500)"

text \<open>The JSON envelope \<open>{ "error": message }\<close>.\<close>

definition errorEnvelope :: "string \<Rightarrow> body" where
  "errorEnvelope message = Json (JObj [(''error'', JStr message)])"

text \<open>The calls to the provider's account-deletion endpoint in a log.\<close>

fun isAccountsDelete :: "event \<Rightarrow> bool" where
  "isAccountsDelete (Fetch AccountsDelete k p) = True"
| "isAccountsDelete e = False"

section \<open>Concrete worlds and requests\<close>

definition demoAccount :: firebase_user where
  "demoAccount =
     \<lparr>localId = ''uid-ann'', email = ''ann@example.com'', emailVerified = True,
      displayName = Some ''Ann'', providerUserInfo = None, photoUrl = None,
      passwordHash = Some ''hash'', passwordUpdatedAt = None, validSince = None,
      disabled = Some False, lastLoginAt = None, createdAt = None, customAuth = None\<rparr>"

definition secondAccount :: firebase_user where
  "secondAccount = demoAccount\<lparr>localId := ''uid-bob'', email := ''bob@example.com''\<rparr>"

definition demoRow :: db_user where
  "demoRow =
     \<lparr>row_id = JNum 7, row_name = JStr ''Ann'', row_email = JStr ''ann@example.com'',
      row_firebase_uid = JStr ''uid-ann'', row_created_at = JStr ''2024-01-01'',
      row_updated_at = JNull, row_other = [(''password_hash'', JStr ''secret'')]\<rparr>"

definition foreignRow :: db_user where
  "foreignRow = demoRow\<lparr>row_firebase_uid := JStr ''uid-bob''\<rparr>"

definition demoBundle :: token_bundle where
  "demoBundle =
     \<lparr>accountId = ''uid-ann'', idToken = ''fresh-token'', refreshToken = ''refresh'',
      expiresIn = ''3600''\<rparr>"

definition fullEnv :: "string \<Rightarrow> string option" where
  "fullEnv k =
     (if k = ''SUPABASE_URL'' then Some ''https://db.example''
      else if k = ''SUPABASE_SERVICE_ROLE_KEY'' then Some ''service-key''
      else if k = ''FIREBASE_WEB_API_KEY'' then Some ''web-key''
      else None)"

definition noStoreUrlEnv :: "string \<Rightarrow> string option" where
  "noStoreUrlEnv k = (if k = ''SUPABASE_URL'' then None else fullEnv k)"

definition onlyStoreUrlEnv :: "string \<Rightarrow> string option" where
  "onlyStoreUrlEnv k = (if k = ''SUPABASE_URL'' then Some ''https://db.example'' else None)"

definition emptyEnv :: "string \<Rightarrow> string option" where
  "emptyEnv k = None"

definition demoWorld :: world where
  "demoWorld =
     \<lparr>env = fullEnv,
      accountsLookup = (\<lambda>k p. Ok (Some [demoAccount, secondAccount])),
      signInWithPassword = (\<lambda>k p. Ok demoBundle),
      signUp = (\<lambda>k p. Ok demoBundle),
      accountsDelete = (\<lambda>k p. Ok ()),
      createClientError = (\<lambda>u k. None),
      usersSelect = (\<lambda>c col v. \<lparr>dbData = Some demoRow, dbError = None\<rparr>),
      usersInsert = (\<lambda>c r. \<lparr>dbData = Some demoRow, dbError = None\<rparr>),
      lengthBelow6 = (\<lambda>v. False)\<rparr>"

definition noAccountWorld :: world where
  "noAccountWorld = demoWorld\<lparr>accountsLookup := (\<lambda>k p. Ok (Some []))\<rparr>"

definition expiredTokenWorld :: world where
  "expiredTokenWorld = demoWorld\<lparr>accountsLookup := (\<lambda>k p. NotOk (Some ''INVALID_ID_TOKEN''))\<rparr>"

definition wrongPasswordWorld :: world where
  "wrongPasswordWorld = demoWorld\<lparr>signInWithPassword := (\<lambda>k p. NotOk (Some ''INVALID_PASSWORD''))\<rparr>"

definition insertFailsWorld :: world where
  "insertFailsWorld =
     demoWorld\<lparr>usersInsert := (\<lambda>c r. \<lparr>dbData = None, dbError = Some ''duplicate key''\<rparr>)\<rparr>"

definition foreignRowWorld :: world where
  "foreignRowWorld =
     demoWorld\<lparr>usersSelect := (\<lambda>c col v. \<lparr>dbData = Some foreignRow, dbError = None\<rparr>)\<rparr>"

definition emptyEnvWorld :: world where
  "emptyEnvWorld = demoWorld\<lparr>env := emptyEnv\<rparr>"

definition noStoreUrlWorld :: world where
  "noStoreUrlWorld = demoWorld\<lparr>env := noStoreUrlEnv\<rparr>"

definition onlyStoreUrlWorld :: world where
  "onlyStoreUrlWorld = demoWorld\<lparr>env := onlyStoreUrlEnv\<rparr>"

definition idQuery :: "string \<Rightarrow> string option" where
  "idQuery k = (if k = ''id'' then Some ''7'' else None)"

definition getRequest :: request where
  "getRequest =
     \<lparr>method = ''GET'', authorization = Some ''Bearer abc'', searchParams = idQuery,
      jsonBody = Inl ''Unexpected end of JSON input''\<rparr>"

definition preflightRequest :: request where
  "preflightRequest = getRequest\<lparr>method := ''OPTIONS'', authorization := None\<rparr>"

definition anonymousRequest :: request where
  "anonymousRequest = getRequest\<lparr>authorization := None\<rparr>"

definition basicAuthRequest :: request where
  "basicAuthRequest = getRequest\<lparr>authorization := Some ''Basic abc''\<rparr>"

definition blankBearerRequest :: request where
  "blankBearerRequest = getRequest\<lparr>authorization := Some (''Bearer '' @ [CHR 0xA0])\<rparr>"

definition loginRequest :: request where
  "loginRequest =
     \<lparr>method = ''POST'', authorization = None, searchParams = emptyEnv,
      jsonBody = Inr (JObj [(''email'', JStr ''ann@example.com''),
                            (''password'', JStr ''not-the-password'')])\<rparr>"

definition registerRequest :: request where
  "registerRequest =
     \<lparr>method = ''POST'', authorization = None, searchParams = emptyEnv,
      jsonBody = Inr (JObj [(''name'', JStr ''Ann''), (''email'', JStr ''ann@example.com''),
                            (''password'', JStr ''long-enough'')])\<rparr>"

definition okHandler :: handler where
  "okHandler req ctx = returnEff (createSuccessResponse (JObj [(''success'', JBool True)]) 200 [])"

definition emptyMessageHandler :: handler where
  "emptyMessageHandler req ctx = throwEff (Error [])"

definition nonErrorHandler :: handler where
  "nonErrorHandler req ctx = throwEff NonError"

definition noOptions :: options where
  "noOptions = \<lparr>requireAuth = None, validateEnv = None\<rparr>"

definition authOnly :: options where
  "authOnly = \<lparr>requireAuth = Some True, validateEnv = None\<rparr>"

definition validateOnly :: options where
  "validateOnly = \<lparr>requireAuth = None, validateEnv = Some True\<rparr>"

definition bothOptions :: options where
  "bothOptions = \<lparr>requireAuth = Some True, validateEnv = Some True\<rparr>"

section \<open>Basic facts\<close>

lemmas eff_defs = returnEff_def throwEff_def bindEff_def tryCatch_def envGet_def fetch_def

text \<open>\<open>startsWith\<close> and \<open>includesStr\<close> are the prefix and the substring test.\<close>

lemma startsWith_iff: "startsWith s p \<longleftrightarrow> (\<exists>rest. s = p @ rest)"
  by (induction s p rule: startsWith.induct) auto

lemma includesStr_iff: "includesStr s sub \<longleftrightarrow> (\<exists>pre post. s = pre @ sub @ post)"
proof (induction s)
  case Nil
  then show ?case by auto
next
  case (Cons c cs)
  show ?case
  proof
    assume "includesStr (c # cs) sub"
    then consider "startsWith (c # cs) sub" | "includesStr cs sub" by auto
    then show "\<exists>pre post. c # cs = pre @ sub @ post"
    proof cases
      case 1
      then obtain rest where "c # cs = sub @ rest" by (auto simp: startsWith_iff)
      then have "c # cs = [] @ sub @ rest" by simp
      then show ?thesis by blast
    next
      case 2
      then obtain pre post where "cs = pre @ sub @ post" using Cons.IH by auto
      then have "c # cs = (c # pre) @ sub @ post" by simp
      then show ?thesis by blast
    qed
  next
    assume "\<exists>pre post. c # cs = pre @ sub @ post"
    then obtain pre post where eq: "c # cs = pre @ sub @ post" by blast
    show "includesStr (c # cs) sub"
    proof (cases pre)
      case Nil
      with eq have "startsWith (c # cs) sub" by (auto simp: startsWith_iff)
      then show ?thesis by simp
    next
      case (Cons a pre')
      with eq have "cs = pre' @ sub @ post" by simp
      then have "includesStr cs sub" using Cons.IH by blast
      then show ?thesis by simp
    qed
  qed
qed

text \<open>Replacing a prefix by the empty string strips it.\<close>

lemma replace_prefix: "startsWith s p \<Longrightarrow> replace s p [] = drop (length p) s"
  by (cases s) auto

lemma spread_Nil: "spread a [] = a"
  by (induction a) (auto simp: spread_def)

lemma createErrorResponse_eq:
  "createErrorResponse message st [] =
     \<lparr>status = st, headers = corsHeaders, body = errorEnvelope message\<rparr>"
  by (simp add: createErrorResponse_def spread_Nil object_def errorEnvelope_def
      List.map_filter_simps)

text \<open>The \<open>catch\<close> on an \<open>Error\<close>: the status of the taxonomy, and the message in the
  envelope unless it is empty.\<close>

lemma catchBlock_Error:
  "catchBlock (Error message) =
     ([ConsoleError (Error message)],
      Resolved \<lparr>status = specStatus message, headers = corsHeaders,
                body = errorEnvelope (if message = [] then ''Internal server error'' else message)\<rparr>)"
  by (simp add: catchBlock_def specStatus_def createErrorResponse_eq)

lemma withMiddleware_caught:
  "snd (tryBlock w req handler opts) = Inl e \<Longrightarrow>
   snd (withMiddleware w req handler opts) = snd (catchBlock e)"
  by (cases "tryBlock w req handler opts") (simp add: withMiddleware_def split: prod.splits)

section \<open>What the steps of the pipeline throw\<close>

lemma bindEff_NonError:
  assumes "snd m \<noteq> Inl NonError" and "\<And>x. snd (f x) \<noteq> Inl NonError"
  shows "snd (bindEff m f) \<noteq> Inl NonError"
proof (cases m)
  case (Pair l res)
  show ?thesis
  proof (cases res)
    case (Inl e)
    with Pair assms(1) show ?thesis by (simp add: bindEff_def)
  next
    case (Inr x)
    with Pair assms(2) [of x] show ?thesis by (cases "f x") (simp add: bindEff_def)
  qed
qed

lemma verifyFirebaseToken_Error: "snd (verifyFirebaseToken w token) \<noteq> Inl NonError"
  by (auto simp: verifyFirebaseToken_def eff_defs Let_def
      split: fetched.splits option.splits list.splits)

lemma extractAndVerifyToken_Error: "snd (extractAndVerifyToken w req) \<noteq> Inl NonError"
  by (simp add: extractAndVerifyToken_def Let_def throwEff_def verifyFirebaseToken_Error)

lemma createSupabaseClient_Error: "snd (createSupabaseClient w) \<noteq> Inl NonError"
  by (auto simp: createSupabaseClient_def createClient_def eff_defs split: option.splits)

lemma validateEnvStep_Error: "snd (validateEnvStep w) \<noteq> Inl NonError"
  by (simp add: validateEnvStep_def Let_def)

text \<open>Every step of the pipeline itself throws an \<open>Error\<close>; only the handler can throw
  anything else.\<close>

lemma tryBlock_Error:
  assumes "\<And>r c. snd (handler r c) \<noteq> Inl NonError"
  shows "snd (tryBlock w req handler opts) \<noteq> Inl NonError"
proof (cases "handleCorsPreflightRequest req")
  case None
  have "snd (bindEff (if validateEnv opts = Some True then validateEnvStep w else returnEff ()) (\<lambda>_.
          bindEff (createSupabaseClient w) (\<lambda>client.
          bindEff (if requireAuth opts = Some True
                   then bindEff (extractAndVerifyToken w req) (\<lambda>u. returnEff (Some u))
                   else returnEff None) (\<lambda>user.
          bindEff ([HandlerCall], Inr ()) (\<lambda>_.
            handler req \<lparr>firebaseUser = user, supabaseClient = client, url = searchParams req\<rparr>)))))
        \<noteq> Inl NonError"
    by (intro bindEff_NonError)
      (simp_all add: assms validateEnvStep_Error createSupabaseClient_Error
        extractAndVerifyToken_Error bindEff_NonError returnEff_def)
  with None show ?thesis by (simp add: tryBlock_def)
next
  case (Some r)
  then show ?thesis by (simp add: tryBlock_def returnEff_def)
qed

text \<open>With a handler that throws nothing but \<open>Error\<close> values the pipeline resolves to a
  response, whatever the request, the world and the options.\<close>

lemma withMiddleware_resolves:
  assumes "\<And>r c. snd (handler r c) \<noteq> Inl NonError"
  shows "\<exists>r. snd (withMiddleware w req handler opts) = Resolved r"
proof (cases "tryBlock w req handler opts")
  case (Pair l res)
  show ?thesis
  proof (cases res)
    case (Inl e)
    with Pair tryBlock_Error [of handler w req opts, OF assms] obtain m where "e = Error m"
      by (cases e) auto
    with Pair Inl show ?thesis by (simp add: withMiddleware_def catchBlock_def)
  next
    case (Inr r)
    with Pair show ?thesis by (simp add: withMiddleware_def)
  qed
qed

section \<open>The authentication step\<close>

lemma object_idToken: "object [(''idToken'', Some (JStr token))] = JObj [(''idToken'', JStr token)]"
  by (simp add: object_def List.map_filter_simps)

text \<open>What \<open>verifyFirebaseToken\<close> does once the API key is configured.\<close>

lemma verifyFirebaseToken_configured:
  assumes "env w ''FIREBASE_WEB_API_KEY'' = Some key" and "key \<noteq> []"
  shows "verifyFirebaseToken w token =
     ([EnvGet ''FIREBASE_WEB_API_KEY'', Fetch AccountsLookup key (JObj [(''idToken'', JStr token)])],
      case accountsLookup w key (JObj [(''idToken'', JStr token)]) of
        Raised m \<Rightarrow> Inl (Error (''Firebase token verification failed: '' @ m))
      | NotOk m \<Rightarrow>
          Inl (Error (''Firebase token verification failed: '' @ orDefault m ''Invalid or expired token''))
      | Ok None \<Rightarrow> Inl (Error ''Firebase token verification failed: Invalid token: No user found'')
      | Ok (Some []) \<Rightarrow> Inl (Error ''Firebase token verification failed: Invalid token: No user found'')
      | Ok (Some (u # us)) \<Rightarrow> Inr u)"
  using assms
  by (simp add: verifyFirebaseToken_def eff_defs Let_def object_idToken
      split: fetched.splits option.splits list.splits)

text \<open>The pipeline once it has got past the preflight test, the validation and the client.\<close>

lemma tryBlock_reaches_auth:
  assumes "method req \<noteq> ''OPTIONS''"
    and "validateEnv opts = Some True \<longrightarrow> snd (validateEnvStep w) = Inr ()"
    and "snd (createSupabaseClient w) = Inr client"
    and "requireAuth opts = Some True"
  shows "snd (tryBlock w req handler opts) =
     (case snd (extractAndVerifyToken w req) of
        Inl e \<Rightarrow> Inl e
      | Inr u \<Rightarrow> snd (handler req \<lparr>firebaseUser = Some u, supabaseClient = client, url = searchParams req\<rparr>))"
proof -
  obtain l1 where c: "createSupabaseClient w = (l1, Inr client)"
    using assms(3) by (cases "createSupabaseClient w") simp
  obtain l2 r2 where a: "extractAndVerifyToken w req = (l2, r2)"
    by (cases "extractAndVerifyToken w req")
  show ?thesis
  proof (cases "validateEnv opts = Some True")
    case True
    with assms(2) obtain l0 where v: "validateEnvStep w = (l0, Inr ())"
      by (cases "validateEnvStep w") simp
    from True v c a assms(1,4) show ?thesis
      by (simp add: tryBlock_def handleCorsPreflightRequest_def bindEff_def returnEff_def
          split: sum.splits prod.splits)
  next
    case False
    with c a assms(1,4) show ?thesis
      by (simp add: tryBlock_def handleCorsPreflightRequest_def bindEff_def returnEff_def
          split: sum.splits prod.splits)
  qed
qed

lemma extractAndVerifyToken_cases:
  "extractAndVerifyToken w req =
     (case authorization req of
        None \<Rightarrow> ([], Inl (Error ''Unauthorized: No valid Bearer token provided''))
      | Some h \<Rightarrow>
          if \<not> startsWith h ''Bearer ''
          then ([], Inl (Error ''Unauthorized: No valid Bearer token provided''))
          else if trim (drop 7 h) = [] then ([], Inl (Error ''Unauthorized: Empty token provided''))
          else verifyFirebaseToken w (trim (drop 7 h)))"
proof (cases "authorization req")
  case None
  then show ?thesis by (simp add: extractAndVerifyToken_def throwEff_def)
next
  case (Some h)
  show ?thesis
  proof (cases "startsWith h ''Bearer ''")
    case True
    then have "h \<noteq> []" by auto
    moreover have "length ''Bearer '' = 7" by simp
    then have "replace h ''Bearer '' [] = drop 7 h"
      using replace_prefix [OF True] by (simp only:)
    ultimately show ?thesis using Some True
      by (simp add: extractAndVerifyToken_def throwEff_def Let_def)
  next
    case False
    with Some show ?thesis by (simp add: extractAndVerifyToken_def throwEff_def Let_def)
  qed
qed

lemma st_bearer: "specStatus ''Unauthorized: No valid Bearer token provided'' = 401"
  by (simp add: specStatus_def)

lemma st_empty: "specStatus ''Unauthorized: Empty token provided'' = 401"
  by (simp add: specStatus_def)

section \<open>The configuration steps\<close>

lemma join_includes: "k \<in> set xs \<Longrightarrow> \<exists>pre post. join sep xs = pre @ k @ post"
proof (induction sep xs rule: join.induct)
  case (1 sep)
  then show ?case by simp
next
  case (2 sep x)
  then have "join sep [x] = [] @ k @ []" by simp
  then show ?case by blast
next
  case (3 sep x y ys)
  show ?case
  proof (cases "k = x")
    case True
    then have "join sep (x # y # ys) = [] @ k @ (sep @ join sep (y # ys))" by simp
    then show ?thesis by blast
  next
    case False
    with 3 obtain pre post where "join sep (y # ys) = pre @ k @ post" by auto
    then have "join sep (x # y # ys) = (x @ sep @ pre) @ k @ post" by simp
    then show ?thesis by blast
  qed
qed

lemma missing_message_status:
  "specStatus (''Missing environment variables: ''
               @ join '', '' (filter (\<lambda>k. \<not> present (env w k)) requiredEnvVars)) = 500"
  by (cases "present (env w ''SUPABASE_URL'')"; cases "present (env w ''SUPABASE_SERVICE_ROLE_KEY'')";
      cases "present (env w ''FIREBASE_WEB_API_KEY'')")
     (simp_all add: requiredEnvVars_def specStatus_def)

lemma tryBlock_validation_fails:
  assumes "method req \<noteq> ''OPTIONS''" and "validateEnv opts = Some True"
    and "filter (\<lambda>k. \<not> present (env w k)) requiredEnvVars \<noteq> []"
  shows "tryBlock w req handler opts =
     (map EnvGet requiredEnvVars,
      Inl (Error (''Missing environment variables: ''
                  @ join '', '' (filter (\<lambda>k. \<not> present (env w k)) requiredEnvVars))))"
  using assms
  by (simp add: tryBlock_def handleCorsPreflightRequest_def validateEnvStep_def bindEff_def Let_def)

lemma st_M: "specStatus ''Missing Supabase configuration: SUPABASE_URL and SUPABASE_SERVICE_ROLE_KEY are required'' = 500"
  by (simp add: specStatus_def)

lemma createSupabaseClient_unconfigured:
  assumes "\<not> present (env w ''SUPABASE_URL'') \<or> \<not> present (env w ''SUPABASE_SERVICE_ROLE_KEY'')"
  shows "createSupabaseClient w =
     ([EnvGet ''SUPABASE_URL'', EnvGet ''SUPABASE_SERVICE_ROLE_KEY''],
      Inl (Error ''Missing Supabase configuration: SUPABASE_URL and SUPABASE_SERVICE_ROLE_KEY are required''))"
  using assms by (auto simp: createSupabaseClient_def eff_defs)

section \<open>The preflight short-circuit\<close>

text \<open>
  C4. A request whose method is \<open>OPTIONS\<close> is answered with status 200, the body \<open>ok\<close> and
  the CORS headers, whatever the options, the handler and the world are. The log of the
  invocation is empty: no configuration value was read, no client was built, the
  provider was not called and the handler was not invoked.
\<close>

theorem preflight_short_circuit:
  "method req = ''OPTIONS'' \<Longrightarrow>
   withMiddleware w req handler opts =
     ([], Resolved \<lparr>status = 200, headers = corsHeaders, body = Text ''ok''\<rparr>)"
  by (simp add: withMiddleware_def tryBlock_def handleCorsPreflightRequest_def returnEff_def)

text \<open>C4, at a preflight request with both options set, no configuration at all and a
  handler that would throw.\<close>

theorem preflight_short_circuit_witness:
  "method preflightRequest = ''OPTIONS'' \<and>
   withMiddleware emptyEnvWorld preflightRequest nonErrorHandler bothOptions =
     ([], Resolved \<lparr>status = 200, headers = corsHeaders, body = Text ''ok''\<rparr>)"
  using preflight_short_circuit [of preflightRequest emptyEnvWorld nonErrorHandler bothOptions]
  by (simp add: preflightRequest_def getRequest_def)

section \<open>The error taxonomy at the pipeline boundary\<close>

lemma tryBlock_emptyMessage:
  "snd (tryBlock demoWorld getRequest emptyMessageHandler noOptions) = Inl (Error [])"
  by (simp add: tryBlock_def handleCorsPreflightRequest_def getRequest_def noOptions_def
      createSupabaseClient_def createClient_def demoWorld_def fullEnv_def
      emptyMessageHandler_def eff_defs)

text \<open>
  C2 as stated fails on a failure whose message is empty: the status is 500 as the
  taxonomy says, but the body carries \<open>Internal server error\<close>, not the (empty) message.
\<close>

theorem empty_message_counterexample:
  "snd (tryBlock demoWorld getRequest emptyMessageHandler noOptions) = Inl (Error []) \<and>
   snd (withMiddleware demoWorld getRequest emptyMessageHandler noOptions) =
     Resolved \<lparr>status = 500, headers = corsHeaders,
               body = errorEnvelope ''Internal server error''\<rparr> \<and>
   errorEnvelope ''Internal server error'' \<noteq> errorEnvelope []"
  by (simp add: withMiddleware_caught tryBlock_emptyMessage catchBlock_Error specStatus_def
      errorEnvelope_def)

text \<open>
  C2, amended. Every failure with a message that reaches the boundary of the pipeline
  becomes a response whose status is the one the taxonomy assigns to the message
  (401 for "Unauthorized", else 400 for "Missing required", else 404 for "not found" or
  "Not found", else 403 for "Forbidden", else 500), with the CORS headers, and whose
  body is the envelope \<open>{ "error": message }\<close>; an empty message is replaced by
  \<open>Internal server error\<close> in the envelope.
\<close>

theorem failure_classification:
  "snd (tryBlock w req handler opts) = Inl (Error message) \<Longrightarrow>
   snd (withMiddleware w req handler opts) =
     Resolved \<lparr>status = specStatus message, headers = corsHeaders,
               body = errorEnvelope
                 (if message = [] then ''Internal server error'' else message)\<rparr>"
  by (simp add: withMiddleware_caught catchBlock_Error)

text \<open>C2, amended, at a request without credentials on a pipeline that requires them.\<close>

theorem failure_classification_witness:
  "snd (tryBlock demoWorld anonymousRequest okHandler authOnly) =
     Inl (Error ''Unauthorized: No valid Bearer token provided'') \<and>
   snd (withMiddleware demoWorld anonymousRequest okHandler authOnly) =
     Resolved \<lparr>status = 401, headers = corsHeaders,
               body = errorEnvelope ''Unauthorized: No valid Bearer token provided''\<rparr>"
proof -
  have h: "snd (tryBlock demoWorld anonymousRequest okHandler authOnly) =
             Inl (Error ''Unauthorized: No valid Bearer token provided'')"
    by (simp add: tryBlock_def handleCorsPreflightRequest_def anonymousRequest_def
        getRequest_def authOnly_def createSupabaseClient_def createClient_def demoWorld_def
        fullEnv_def extractAndVerifyToken_def eff_defs)
  have "specStatus ''Unauthorized: No valid Bearer token provided'' = 401"
    by (simp add: specStatus_def)
  with h failure_classification [OF h] show ?thesis by simp
qed

section \<open>Failures that escape the pipeline\<close>

text \<open>
  C3 at a handler that throws a value without a message (such as \<open>throw 'boom'\<close>): the
  pipeline reaches the handler, the \<open>catch\<close> logs the value, and the promise of
  \<open>withMiddleware\<close> is rejected: no response is produced.
\<close>

theorem thrown_value_without_message_escapes:
  "withMiddleware demoWorld getRequest nonErrorHandler noOptions =
     ([EnvGet ''SUPABASE_URL'', EnvGet ''SUPABASE_SERVICE_ROLE_KEY'',
       CreateClient ''https://db.example'' ''service-key'', HandlerCall, ConsoleError NonError],
      Rejected)"
  by (simp add: withMiddleware_def tryBlock_def handleCorsPreflightRequest_def getRequest_def
      noOptions_def createSupabaseClient_def createClient_def demoWorld_def fullEnv_def
      nonErrorHandler_def catchBlock_def eff_defs)

section \<open>Bearer extraction\<close>

lemma demo_validated: "snd (validateEnvStep demoWorld) = Inr ()"
  by (simp add: validateEnvStep_def requiredEnvVars_def demoWorld_def fullEnv_def)

lemma demo_client:
  "snd (createSupabaseClient demoWorld) =
     Inr \<lparr>supabaseUrl = ''https://db.example'', supabaseKey = ''service-key''\<rparr>"
  by (simp add: createSupabaseClient_def createClient_def demoWorld_def fullEnv_def eff_defs)

text \<open>
  C5 as stated fails on a preflight request: with \<open>requireAuth\<close> set and no
  \<open>Authorization\<close> header the pipeline answers 200, not 401.
\<close>

theorem preflight_without_credentials_counterexample:
  "requireAuth bothOptions = Some True \<and> authorization preflightRequest = None \<and>
   snd (withMiddleware demoWorld preflightRequest okHandler bothOptions) =
     Resolved \<lparr>status = 200, headers = corsHeaders, body = Text ''ok''\<rparr>"
  by (simp add: withMiddleware_def tryBlock_def handleCorsPreflightRequest_def returnEff_def
      preflightRequest_def getRequest_def bothOptions_def)

text \<open>
  C5, amended. On an invocation with \<open>requireAuth\<close> that reaches the authentication step
  (the request is not a preflight, the validation of the configuration passes when it
  is requested, and the data-store client is built): if the \<open>Authorization\<close> header is
  absent or does not start with \<open>Bearer \<close> the extraction fails with
  \<open>Unauthorized: No valid Bearer token provided\<close> and the response has status 401; if the
  header starts with \<open>Bearer \<close> and nothing but white space follows, it fails with
  \<open>Unauthorized: Empty token provided\<close>, again with status 401; otherwise the extraction
  is the verification of the trimmed rest of the header.
\<close>

theorem bearer_extraction:
  assumes "method req \<noteq> ''OPTIONS''" and "requireAuth opts = Some True"
    and "validateEnv opts = Some True \<longrightarrow> snd (validateEnvStep w) = Inr ()"
    and "snd (createSupabaseClient w) = Inr client"
  shows
    "(authorization req = None \<or> (\<exists>h. authorization req = Some h \<and> \<not> startsWith h ''Bearer '') \<longrightarrow>
        snd (extractAndVerifyToken w req) = Inl (Error ''Unauthorized: No valid Bearer token provided'') \<and>
        snd (withMiddleware w req handler opts) =
          Resolved \<lparr>status = 401, headers = corsHeaders,
                    body = errorEnvelope ''Unauthorized: No valid Bearer token provided''\<rparr>) \<and>
     (\<forall>h. authorization req = Some h \<and> startsWith h ''Bearer '' \<and> trim (drop 7 h) = [] \<longrightarrow>
        snd (extractAndVerifyToken w req) = Inl (Error ''Unauthorized: Empty token provided'') \<and>
        snd (withMiddleware w req handler opts) =
          Resolved \<lparr>status = 401, headers = corsHeaders,
                    body = errorEnvelope ''Unauthorized: Empty token provided''\<rparr>) \<and>
     (\<forall>h. authorization req = Some h \<and> startsWith h ''Bearer '' \<and> trim (drop 7 h) \<noteq> [] \<longrightarrow>
        extractAndVerifyToken w req = verifyFirebaseToken w (trim (drop 7 h)))"
proof -
  note reach = tryBlock_reaches_auth [OF assms(1,3,4,2), of handler]
  have none: "snd (withMiddleware w req handler opts) =
        Resolved \<lparr>status = specStatus m, headers = corsHeaders, body = errorEnvelope m\<rparr>"
    if "snd (extractAndVerifyToken w req) = Inl (Error m)" and "m \<noteq> []" for m
    using that reach by (simp add: withMiddleware_caught catchBlock_Error)
  show ?thesis
    using none [of "''Unauthorized: No valid Bearer token provided''"]
      none [of "''Unauthorized: Empty token provided''"]
    by (auto simp: extractAndVerifyToken_cases st_bearer st_empty)
qed



text \<open>C5, amended, at a request without the header, at one with another scheme, at one
  with a blank token, and at one with the token \<open>abc\<close>.\<close>

theorem bearer_extraction_witness:
  "authorization anonymousRequest = None \<and>
   snd (withMiddleware demoWorld anonymousRequest okHandler authOnly) =
     Resolved \<lparr>status = 401, headers = corsHeaders,
               body = errorEnvelope ''Unauthorized: No valid Bearer token provided''\<rparr> \<and>
   authorization basicAuthRequest = Some ''Basic abc'' \<and>
   snd (withMiddleware demoWorld basicAuthRequest okHandler bothOptions) =
     Resolved \<lparr>status = 401, headers = corsHeaders,
               body = errorEnvelope ''Unauthorized: No valid Bearer token provided''\<rparr> \<and>
   authorization blankBearerRequest = Some (''Bearer '' @ [CHR 0xA0]) \<and>
   snd (withMiddleware demoWorld blankBearerRequest okHandler authOnly) =
     Resolved \<lparr>status = 401, headers = corsHeaders,
               body = errorEnvelope ''Unauthorized: Empty token provided''\<rparr> \<and>
   authorization getRequest = Some ''Bearer abc'' \<and>
   extractAndVerifyToken demoWorld getRequest = verifyFirebaseToken demoWorld ''abc''"
proof -
  have m: "method anonymousRequest \<noteq> ''OPTIONS''" "method basicAuthRequest \<noteq> ''OPTIONS''"
    "method blankBearerRequest \<noteq> ''OPTIONS''" "method getRequest \<noteq> ''OPTIONS''"
    by (simp_all add: anonymousRequest_def basicAuthRequest_def blankBearerRequest_def
        getRequest_def)
  have a: "requireAuth authOnly = Some True" "requireAuth bothOptions = Some True"
    by (simp_all add: authOnly_def bothOptions_def)
  have v: "validateEnv opts = Some True \<longrightarrow> snd (validateEnvStep demoWorld) = Inr ()" for opts
    by (simp add: demo_validated)
  have h: "authorization anonymousRequest = None"
    "authorization basicAuthRequest = Some ''Basic abc''"
    "authorization blankBearerRequest = Some (''Bearer '' @ [CHR 0xA0])"
    "authorization getRequest = Some ''Bearer abc''"
    by (simp_all add: anonymousRequest_def basicAuthRequest_def blankBearerRequest_def
        getRequest_def)
  have t: "trim (drop 7 (''Bearer '' @ [CHR 0xA0])) = []" "trim (drop 7 ''Bearer abc'') = ''abc''"
    by (simp_all add: trim_def isWhiteSpace_def)
  from bearer_extraction [OF m(1) a(1) v demo_client, of okHandler]
    bearer_extraction [OF m(2) a(2) v demo_client, of okHandler]
    bearer_extraction [OF m(3) a(1) v demo_client, of okHandler]
    bearer_extraction [OF m(4) a(2) v demo_client, of okHandler]
  show ?thesis using h t by simp
qed

section \<open>Token verification\<close>

text \<open>
  C1 as stated fails on a token for which the provider returns no account: the failure
  of \<open>verifyFirebaseToken\<close> is not \<open>Invalid token: No user found\<close> but that message
  behind the prefix its own \<open>catch\<close> adds, and the response of the pipeline has status
  500, not 401.
\<close>

theorem no_account_counterexample:
  "accountsLookup noAccountWorld ''web-key'' (JObj [(''idToken'', JStr ''abc'')]) = Ok (Some []) \<and>
   snd (verifyFirebaseToken noAccountWorld ''abc'') =
     Inl (Error ''Firebase token verification failed: Invalid token: No user found'') \<and>
   snd (withMiddleware noAccountWorld getRequest okHandler bothOptions) =
     Resolved \<lparr>status = 500, headers = corsHeaders,
               body = errorEnvelope
                 ''Firebase token verification failed: Invalid token: No user found''\<rparr>"
proof -
  have k: "env noAccountWorld ''FIREBASE_WEB_API_KEY'' = Some ''web-key''"
    by (simp add: noAccountWorld_def demoWorld_def fullEnv_def)
  have l: "accountsLookup noAccountWorld ''web-key'' (JObj [(''idToken'', JStr ''abc'')]) = Ok (Some [])"
    by (simp add: noAccountWorld_def demoWorld_def)
  have f: "snd (verifyFirebaseToken noAccountWorld ''abc'') =
      Inl (Error ''Firebase token verification failed: Invalid token: No user found'')"
    using verifyFirebaseToken_configured [OF k, of "''abc''"] l by simp
  have t: "trim (drop 7 ''Bearer abc'') = ''abc''"
    by (simp add: trim_def isWhiteSpace_def)
  have e: "snd (extractAndVerifyToken noAccountWorld getRequest) =
      Inl (Error ''Firebase token verification failed: Invalid token: No user found'')"
    using f t by (simp add: extractAndVerifyToken_cases getRequest_def)
  have "snd (tryBlock noAccountWorld getRequest okHandler bothOptions) =
      Inl (Error ''Firebase token verification failed: Invalid token: No user found'')"
    using e
    by (subst tryBlock_reaches_auth
          [where client = "\<lparr>supabaseUrl = ''https://db.example'', supabaseKey = ''service-key''\<rparr>"])
       (simp_all add: getRequest_def bothOptions_def validateEnvStep_def requiredEnvVars_def
          createSupabaseClient_def createClient_def noAccountWorld_def demoWorld_def fullEnv_def
          eff_defs)
  moreover have "specStatus ''Firebase token verification failed: Invalid token: No user found'' = 500"
    by (simp add: specStatus_def)
  ultimately show ?thesis using l f by (simp add: withMiddleware_caught catchBlock_Error)
qed

text \<open>
  C1, amended. Take a request with a bearer token on a pipeline that requires
  authentication and reaches that step, with the provider's API key configured. If the
  lookup returns no account, \<open>verifyFirebaseToken\<close> fails with
  \<open>Firebase token verification failed: Invalid token: No user found\<close>; if the lookup is
  not 2xx it fails with \<open>Firebase token verification failed: \<close> followed by the
  provider's message (\<open>Invalid or expired token\<close> when there is none); in both cases the
  pipeline answers with an error response that carries this message. If the lookup
  returns accounts, the first of the list is returned and handed to the handler.
\<close>

theorem token_lookup_outcomes:
  assumes "env w ''FIREBASE_WEB_API_KEY'' = Some key" and "key \<noteq> []"
    and "method req \<noteq> ''OPTIONS''" and "requireAuth opts = Some True"
    and "validateEnv opts = Some True \<longrightarrow> snd (validateEnvStep w) = Inr ()"
    and "snd (createSupabaseClient w) = Inr client"
    and "authorization req = Some h" and "startsWith h ''Bearer ''"
    and "trim (drop 7 h) = token" and "token \<noteq> []"
  shows
    "(accountsLookup w key (JObj [(''idToken'', JStr token)]) = Ok None \<or>
      accountsLookup w key (JObj [(''idToken'', JStr token)]) = Ok (Some []) \<longrightarrow>
        snd (verifyFirebaseToken w token) =
          Inl (Error ''Firebase token verification failed: Invalid token: No user found'') \<and>
        (\<exists>st. snd (withMiddleware w req handler opts) =
           Resolved \<lparr>status = st, headers = corsHeaders,
                     body = errorEnvelope
                       ''Firebase token verification failed: Invalid token: No user found''\<rparr>)) \<and>
     (\<forall>m. accountsLookup w key (JObj [(''idToken'', JStr token)]) = NotOk m \<longrightarrow>
        snd (verifyFirebaseToken w token) =
          Inl (Error (''Firebase token verification failed: ''
                      @ orDefault m ''Invalid or expired token'')) \<and>
        (\<exists>st. snd (withMiddleware w req handler opts) =
           Resolved \<lparr>status = st, headers = corsHeaders,
                     body = errorEnvelope (''Firebase token verification failed: ''
                                           @ orDefault m ''Invalid or expired token'')\<rparr>)) \<and>
     (\<forall>u us. accountsLookup w key (JObj [(''idToken'', JStr token)]) = Ok (Some (u # us)) \<longrightarrow>
        snd (verifyFirebaseToken w token) = Inr u \<and>
        snd (tryBlock w req handler opts) =
          snd (handler req \<lparr>firebaseUser = Some u, supabaseClient = client,
                            url = searchParams req\<rparr>))"
proof -
  note verify = verifyFirebaseToken_configured [OF assms(1,2), of token]
  have delegated: "extractAndVerifyToken w req = verifyFirebaseToken w token"
    using assms(7-10) by (simp add: extractAndVerifyToken_cases)
  note reach = tryBlock_reaches_auth [OF assms(3,5,6,4), of handler]
  have rejected: "\<exists>st. snd (withMiddleware w req handler opts) =
        Resolved \<lparr>status = st, headers = corsHeaders,
                  body = errorEnvelope (''Firebase token verification failed: '' @ m)\<rparr>"
    if "snd (verifyFirebaseToken w token) = Inl (Error (''Firebase token verification failed: '' @ m))"
    for m
    using that reach delegated by (simp add: withMiddleware_caught catchBlock_Error)
  show ?thesis
  proof (intro conjI allI impI)
    assume "accountsLookup w key (JObj [(''idToken'', JStr token)]) = Ok None \<or>
            accountsLookup w key (JObj [(''idToken'', JStr token)]) = Ok (Some [])"
    then show f: "snd (verifyFirebaseToken w token) =
        Inl (Error ''Firebase token verification failed: Invalid token: No user found'')"
      using verify by auto
    show "\<exists>st. snd (withMiddleware w req handler opts) =
           Resolved \<lparr>status = st, headers = corsHeaders,
                     body = errorEnvelope
                       ''Firebase token verification failed: Invalid token: No user found''\<rparr>"
      using rejected [of "''Invalid token: No user found''"] f by simp
  next
    fix m
    assume "accountsLookup w key (JObj [(''idToken'', JStr token)]) = NotOk m"
    then show f: "snd (verifyFirebaseToken w token) =
        Inl (Error (''Firebase token verification failed: ''
                    @ orDefault m ''Invalid or expired token''))"
      using verify by simp
    show "\<exists>st. snd (withMiddleware w req handler opts) =
           Resolved \<lparr>status = st, headers = corsHeaders,
                     body = errorEnvelope (''Firebase token verification failed: ''
                                           @ orDefault m ''Invalid or expired token'')\<rparr>"
      using rejected [OF f] .
  next
    fix u us
    assume "accountsLookup w key (JObj [(''idToken'', JStr token)]) = Ok (Some (u # us))"
    then show f: "snd (verifyFirebaseToken w token) = Inr u"
      using verify by simp
    show "snd (tryBlock w req handler opts) =
          snd (handler req \<lparr>firebaseUser = Some u, supabaseClient = client,
                            url = searchParams req\<rparr>)"
      using reach delegated f by simp
  qed
qed

text \<open>C1, amended, at the token \<open>abc\<close>: for a provider that knows no account, for one
  that answers 400 with \<open>INVALID_ID_TOKEN\<close>, and for one that returns two accounts.\<close>

theorem token_lookup_outcomes_witness:
  "accountsLookup noAccountWorld ''web-key'' (JObj [(''idToken'', JStr ''abc'')]) = Ok (Some []) \<and>
   snd (verifyFirebaseToken noAccountWorld ''abc'') =
     Inl (Error ''Firebase token verification failed: Invalid token: No user found'') \<and>
   accountsLookup expiredTokenWorld ''web-key'' (JObj [(''idToken'', JStr ''abc'')]) =
     NotOk (Some ''INVALID_ID_TOKEN'') \<and>
   snd (verifyFirebaseToken expiredTokenWorld ''abc'') =
     Inl (Error ''Firebase token verification failed: INVALID_ID_TOKEN'') \<and>
   accountsLookup demoWorld ''web-key'' (JObj [(''idToken'', JStr ''abc'')]) =
     Ok (Some [demoAccount, secondAccount]) \<and>
   snd (verifyFirebaseToken demoWorld ''abc'') = Inr demoAccount"
proof -
  let ?client = "\<lparr>supabaseUrl = ''https://db.example'', supabaseKey = ''service-key''\<rparr>"
  have k: "env noAccountWorld ''FIREBASE_WEB_API_KEY'' = Some ''web-key''"
    "env expiredTokenWorld ''FIREBASE_WEB_API_KEY'' = Some ''web-key''"
    "env demoWorld ''FIREBASE_WEB_API_KEY'' = Some ''web-key''"
    by (simp_all add: noAccountWorld_def expiredTokenWorld_def demoWorld_def fullEnv_def)
  have n: "''web-key'' \<noteq> []" by simp
  have m: "method getRequest \<noteq> ''OPTIONS''" by (simp add: getRequest_def)
  have a: "requireAuth bothOptions = Some True" by (simp add: bothOptions_def)
  have v: "validateEnv bothOptions = Some True \<longrightarrow> snd (validateEnvStep noAccountWorld) = Inr ()"
    "validateEnv bothOptions = Some True \<longrightarrow> snd (validateEnvStep expiredTokenWorld) = Inr ()"
    "validateEnv bothOptions = Some True \<longrightarrow> snd (validateEnvStep demoWorld) = Inr ()"
    by (simp_all add: validateEnvStep_def requiredEnvVars_def noAccountWorld_def
        expiredTokenWorld_def demoWorld_def fullEnv_def)
  have c: "snd (createSupabaseClient noAccountWorld) = Inr ?client"
    "snd (createSupabaseClient expiredTokenWorld) = Inr ?client"
    "snd (createSupabaseClient demoWorld) = Inr ?client"
    by (simp_all add: createSupabaseClient_def createClient_def noAccountWorld_def
        expiredTokenWorld_def demoWorld_def fullEnv_def eff_defs)
  have h: "authorization getRequest = Some ''Bearer abc''" by (simp add: getRequest_def)
  have b: "startsWith ''Bearer abc'' ''Bearer ''" by simp
  have t: "trim (drop 7 ''Bearer abc'') = ''abc''" by (simp add: trim_def isWhiteSpace_def)
  have e: "''abc'' \<noteq> []" by simp
  have l: "accountsLookup noAccountWorld ''web-key'' (JObj [(''idToken'', JStr ''abc'')]) = Ok (Some [])"
    "accountsLookup expiredTokenWorld ''web-key'' (JObj [(''idToken'', JStr ''abc'')]) =
       NotOk (Some ''INVALID_ID_TOKEN'')"
    "accountsLookup demoWorld ''web-key'' (JObj [(''idToken'', JStr ''abc'')]) =
       Ok (Some [demoAccount, secondAccount])"
    by (simp_all add: noAccountWorld_def expiredTokenWorld_def demoWorld_def)
  from token_lookup_outcomes [OF k(1) n m a v(1) c(1) h b t e, of okHandler]
    token_lookup_outcomes [OF k(2) n m a v(2) c(2) h b t e, of okHandler]
    token_lookup_outcomes [OF k(3) n m a v(3) c(3) h b t e, of okHandler]
  show ?thesis using l by simp
qed

section \<open>Validation of the configuration\<close>

text \<open>
  C6 as stated fails on a preflight request: with \<open>validateEnv\<close> set and every
  required value absent the pipeline answers 200 and names no missing key.
\<close>

theorem preflight_without_configuration_counterexample:
  "validateEnv validateOnly = Some True \<and>
   env emptyEnvWorld ''SUPABASE_URL'' = None \<and>
   env emptyEnvWorld ''SUPABASE_SERVICE_ROLE_KEY'' = None \<and>
   env emptyEnvWorld ''FIREBASE_WEB_API_KEY'' = None \<and>
   snd (withMiddleware emptyEnvWorld preflightRequest okHandler validateOnly) =
     Resolved \<lparr>status = 200, headers = corsHeaders, body = Text ''ok''\<rparr>"
  by (simp add: withMiddleware_def tryBlock_def handleCorsPreflightRequest_def returnEff_def
      preflightRequest_def getRequest_def validateOnly_def emptyEnvWorld_def demoWorld_def
      emptyEnv_def)

text \<open>
  C6, amended. On an invocation with \<open>validateEnv\<close> whose request is not a preflight, if
  any of the three required values is absent (unset or empty), the response has status
  500 and its message is \<open>Missing environment variables: \<close> followed by the names of
  all the missing keys, in the order of the list and joined by a comma and a space: the
  name of every missing key occurs in the message. The handler is not invoked.
\<close>

theorem missing_configuration_listed:
  assumes "method req \<noteq> ''OPTIONS''" and "validateEnv opts = Some True"
    and "missing = filter (\<lambda>k. \<not> present (env w k)) requiredEnvVars" and "missing \<noteq> []"
  shows "snd (withMiddleware w req handler opts) =
           Resolved \<lparr>status = 500, headers = corsHeaders,
                     body = errorEnvelope (''Missing environment variables: '' @ join '', '' missing)\<rparr> \<and>
         (\<forall>k \<in> set requiredEnvVars. \<not> present (env w k) \<longrightarrow>
            includesStr (''Missing environment variables: '' @ join '', '' missing) k) \<and>
         HandlerCall \<notin> set (fst (withMiddleware w req handler opts))"
proof -
  define msg where "msg = ''Missing environment variables: '' @ join '', '' missing"
  have st: "specStatus msg = 500"
    unfolding msg_def assms(3) by (rule missing_message_status)
  have ne: "msg \<noteq> []"
    unfolding msg_def by simp
  have t: "tryBlock w req handler opts = (map EnvGet requiredEnvVars, Inl (Error msg))"
    unfolding msg_def assms(3)
    using assms(3,4) by (intro tryBlock_validation_fails [OF assms(1,2)]) simp
  have r: "snd (withMiddleware w req handler opts) =
      Resolved \<lparr>status = 500, headers = corsHeaders, body = errorEnvelope msg\<rparr>"
    using t st ne by (simp add: withMiddleware_caught catchBlock_Error)
  have l: "HandlerCall \<notin> set (fst (withMiddleware w req handler opts))"
    using t by (auto simp: withMiddleware_def catchBlock_def requiredEnvVars_def)
  have i: "includesStr msg k" if "k \<in> set requiredEnvVars" and "\<not> present (env w k)" for k
  proof -
    from that have "k \<in> set missing" using assms(3) by simp
    then obtain pre post where "join '', '' missing = pre @ k @ post"
      using join_includes by blast
    then have "msg = (''Missing environment variables: '' @ pre) @ k @ post"
      by (simp add: msg_def)
    then show ?thesis unfolding includesStr_iff by blast
  qed
  from r l i show ?thesis unfolding msg_def by blast
qed



text \<open>C6, amended, with all three values absent, with the last two absent, and with the
  first one absent.\<close>

theorem missing_configuration_listed_witness:
  "snd (withMiddleware emptyEnvWorld getRequest okHandler validateOnly) =
     Resolved \<lparr>status = 500, headers = corsHeaders,
               body = errorEnvelope
                 ''Missing environment variables: SUPABASE_URL, SUPABASE_SERVICE_ROLE_KEY, FIREBASE_WEB_API_KEY''\<rparr> \<and>
   snd (withMiddleware onlyStoreUrlWorld getRequest okHandler bothOptions) =
     Resolved \<lparr>status = 500, headers = corsHeaders,
               body = errorEnvelope
                 ''Missing environment variables: SUPABASE_SERVICE_ROLE_KEY, FIREBASE_WEB_API_KEY''\<rparr> \<and>
   snd (withMiddleware noStoreUrlWorld getRequest okHandler validateOnly) =
     Resolved \<lparr>status = 500, headers = corsHeaders,
               body = errorEnvelope ''Missing environment variables: SUPABASE_URL''\<rparr>"
proof -
  have m: "method getRequest \<noteq> ''OPTIONS''" by (simp add: getRequest_def)
  have v: "validateEnv validateOnly = Some True" "validateEnv bothOptions = Some True"
    by (simp_all add: validateOnly_def bothOptions_def)
  have f1: "[''SUPABASE_URL'', ''SUPABASE_SERVICE_ROLE_KEY'', ''FIREBASE_WEB_API_KEY''] =
      filter (\<lambda>k. \<not> present (env emptyEnvWorld k)) requiredEnvVars"
    by (simp add: requiredEnvVars_def emptyEnvWorld_def demoWorld_def emptyEnv_def)
  have f2: "[''SUPABASE_SERVICE_ROLE_KEY'', ''FIREBASE_WEB_API_KEY''] =
      filter (\<lambda>k. \<not> present (env onlyStoreUrlWorld k)) requiredEnvVars"
    by (simp add: requiredEnvVars_def onlyStoreUrlWorld_def demoWorld_def onlyStoreUrlEnv_def)
  have f3: "[''SUPABASE_URL''] =
      filter (\<lambda>k. \<not> present (env noStoreUrlWorld k)) requiredEnvVars"
    by (simp add: requiredEnvVars_def noStoreUrlWorld_def demoWorld_def noStoreUrlEnv_def
        fullEnv_def)
  from missing_configuration_listed [OF m v(1) f1, where handler = okHandler]
    missing_configuration_listed [OF m v(2) f2, where handler = okHandler]
    missing_configuration_listed [OF m v(1) f3, where handler = okHandler]
  show ?thesis by simp
qed

section \<open>The data-store configuration\<close>

text \<open>
  C10 as stated fails when \<open>validateEnv\<close> is set: with the store endpoint absent the
  validation fails first, the message is \<open>Missing environment variables: SUPABASE_URL\<close>,
  and the construction of the context is never started (the log ends with the three
  reads of the validation).
\<close>

theorem store_url_validated_first_counterexample:
  "env noStoreUrlWorld ''SUPABASE_URL'' = None \<and>
   validateEnv validateOnly = Some True \<and>
   withMiddleware noStoreUrlWorld getRequest okHandler validateOnly =
     ([EnvGet ''SUPABASE_URL'', EnvGet ''SUPABASE_SERVICE_ROLE_KEY'',
       EnvGet ''FIREBASE_WEB_API_KEY'',
       ConsoleError (Error ''Missing environment variables: SUPABASE_URL'')],
      Resolved \<lparr>status = 500, headers = corsHeaders,
                body = errorEnvelope ''Missing environment variables: SUPABASE_URL''\<rparr>)"
  by (simp add: withMiddleware_def tryBlock_def handleCorsPreflightRequest_def getRequest_def
      validateOnly_def validateEnvStep_def requiredEnvVars_def noStoreUrlWorld_def
      demoWorld_def noStoreUrlEnv_def fullEnv_def catchBlock_Error specStatus_def eff_defs)

text \<open>
  C10, amended. On a request that is not a preflight, if the store endpoint or the store
  service credential is absent (unset or empty): when \<open>validateEnv\<close> is not set, the
  construction of the context fails after reading the two values, and the response has
  status 500 with the message
  \<open>Missing Supabase configuration: SUPABASE_URL and SUPABASE_SERVICE_ROLE_KEY are required\<close>;
  when \<open>validateEnv\<close> is set, the validation fails first, after its three reads and
  before the context is constructed, and the response has status 500 with the message
  \<open>Missing environment variables: \<close> followed by the joined names of the missing keys,
  among them the name of each absent store value. Whatever the options are, the
  response has status 500 and the handler is not invoked.
\<close>

theorem store_configuration_required:
  assumes "method req \<noteq> ''OPTIONS''"
    and "\<not> present (env w ''SUPABASE_URL'') \<or> \<not> present (env w ''SUPABASE_SERVICE_ROLE_KEY'')"
  shows
    "(validateEnv opts \<noteq> Some True \<longrightarrow>
        withMiddleware w req handler opts =
          ([EnvGet ''SUPABASE_URL'', EnvGet ''SUPABASE_SERVICE_ROLE_KEY'',
            ConsoleError (Error ''Missing Supabase configuration: SUPABASE_URL and SUPABASE_SERVICE_ROLE_KEY are required'')],
           Resolved \<lparr>status = 500, headers = corsHeaders,
                     body = errorEnvelope ''Missing Supabase configuration: SUPABASE_URL and SUPABASE_SERVICE_ROLE_KEY are required''\<rparr>)) \<and>
     (validateEnv opts = Some True \<longrightarrow>
        withMiddleware w req handler opts =
          (map EnvGet requiredEnvVars
           @ [ConsoleError (Error (''Missing environment variables: ''
                @ join '', '' (filter (\<lambda>k. \<not> present (env w k)) requiredEnvVars)))],
           Resolved \<lparr>status = 500, headers = corsHeaders,
                     body = errorEnvelope (''Missing environment variables: ''
                       @ join '', '' (filter (\<lambda>k. \<not> present (env w k)) requiredEnvVars))\<rparr>) \<and>
        (\<not> present (env w ''SUPABASE_URL'') \<longrightarrow>
           includesStr (''Missing environment variables: ''
             @ join '', '' (filter (\<lambda>k. \<not> present (env w k)) requiredEnvVars)) ''SUPABASE_URL'') \<and>
        (\<not> present (env w ''SUPABASE_SERVICE_ROLE_KEY'') \<longrightarrow>
           includesStr (''Missing environment variables: ''
             @ join '', '' (filter (\<lambda>k. \<not> present (env w k)) requiredEnvVars))
             ''SUPABASE_SERVICE_ROLE_KEY'')) \<and>
     (\<exists>r. snd (withMiddleware w req handler opts) = Resolved r \<and> status r = 500) \<and>
     HandlerCall \<notin> set (fst (withMiddleware w req handler opts))"
proof (cases "validateEnv opts = Some True")
  case True
  define missing where "missing = filter (\<lambda>k. \<not> present (env w k)) requiredEnvVars"
  define msg where "msg = ''Missing environment variables: '' @ join '', '' missing"
  have nonempty: "missing \<noteq> []"
    using assms(2) by (auto simp: missing_def requiredEnvVars_def)
  have st: "specStatus msg = 500"
    unfolding msg_def missing_def by (rule missing_message_status)
  have ne: "msg \<noteq> []"
    unfolding msg_def by simp
  have t: "tryBlock w req handler opts = (map EnvGet requiredEnvVars, Inl (Error msg))"
    unfolding msg_def missing_def
    using nonempty by (intro tryBlock_validation_fails [OF assms(1) True]) (simp add: missing_def)
  have r: "withMiddleware w req handler opts =
      (map EnvGet requiredEnvVars @ [ConsoleError (Error msg)],
       Resolved \<lparr>status = 500, headers = corsHeaders, body = errorEnvelope msg\<rparr>)"
    using t st ne by (simp add: withMiddleware_def catchBlock_Error)
  have i: "includesStr msg k" if "k \<in> set requiredEnvVars" and "\<not> present (env w k)" for k
  proof -
    from that have "k \<in> set missing" by (simp add: missing_def)
    then obtain pre post where "join '', '' missing = pre @ k @ post"
      using join_includes by blast
    then have "msg = (''Missing environment variables: '' @ pre) @ k @ post"
      by (simp add: msg_def)
    then show ?thesis unfolding includesStr_iff by blast
  qed
  have u: "\<not> present (env w ''SUPABASE_URL'') \<longrightarrow> includesStr msg ''SUPABASE_URL''"
    using i [of "''SUPABASE_URL''"] by (simp add: requiredEnvVars_def)
  have k: "\<not> present (env w ''SUPABASE_SERVICE_ROLE_KEY'') \<longrightarrow>
           includesStr msg ''SUPABASE_SERVICE_ROLE_KEY''"
    using i [of "''SUPABASE_SERVICE_ROLE_KEY''"] by (simp add: requiredEnvVars_def)
  have e: "\<exists>r. snd (withMiddleware w req handler opts) = Resolved r \<and> status r = 500"
    using r by simp
  have h: "HandlerCall \<notin> set (fst (withMiddleware w req handler opts))"
    using r by (auto simp: requiredEnvVars_def)
  from True r u k e h show ?thesis
    unfolding msg_def missing_def by blast
next
  case False
  have "tryBlock w req handler opts =
     ([EnvGet ''SUPABASE_URL'', EnvGet ''SUPABASE_SERVICE_ROLE_KEY''],
      Inl (Error ''Missing Supabase configuration: SUPABASE_URL and SUPABASE_SERVICE_ROLE_KEY are required''))"
    using assms(1) False createSupabaseClient_unconfigured [OF assms(2)]
    by (simp add: tryBlock_def handleCorsPreflightRequest_def bindEff_def returnEff_def)
  then have "withMiddleware w req handler opts =
          ([EnvGet ''SUPABASE_URL'', EnvGet ''SUPABASE_SERVICE_ROLE_KEY'',
            ConsoleError (Error ''Missing Supabase configuration: SUPABASE_URL and SUPABASE_SERVICE_ROLE_KEY are required'')],
           Resolved \<lparr>status = 500, headers = corsHeaders,
                     body = errorEnvelope ''Missing Supabase configuration: SUPABASE_URL and SUPABASE_SERVICE_ROLE_KEY are required''\<rparr>)"
    using st_M by (simp add: withMiddleware_def catchBlock_Error)
  with False show ?thesis by simp
qed

text \<open>C10, amended, with the store endpoint absent, without options and with
  \<open>validateEnv\<close>, and with every value absent and both options set.\<close>

theorem store_configuration_required_witness:
  "env noStoreUrlWorld ''SUPABASE_URL'' = None \<and>
   validateEnv noOptions = None \<and>
   withMiddleware noStoreUrlWorld getRequest okHandler noOptions =
     ([EnvGet ''SUPABASE_URL'', EnvGet ''SUPABASE_SERVICE_ROLE_KEY'',
       ConsoleError (Error ''Missing Supabase configuration: SUPABASE_URL and SUPABASE_SERVICE_ROLE_KEY are required'')],
      Resolved \<lparr>status = 500, headers = corsHeaders,
                body = errorEnvelope ''Missing Supabase configuration: SUPABASE_URL and SUPABASE_SERVICE_ROLE_KEY are required''\<rparr>) \<and>
   validateEnv validateOnly = Some True \<and>
   HandlerCall \<notin> set (fst (withMiddleware noStoreUrlWorld getRequest okHandler validateOnly)) \<and>
   env emptyEnvWorld ''SUPABASE_URL'' = None \<and>
   env emptyEnvWorld ''SUPABASE_SERVICE_ROLE_KEY'' = None \<and>
   validateEnv bothOptions = Some True \<and>
   withMiddleware emptyEnvWorld getRequest okHandler bothOptions =
     ([EnvGet ''SUPABASE_URL'', EnvGet ''SUPABASE_SERVICE_ROLE_KEY'', EnvGet ''FIREBASE_WEB_API_KEY'',
       ConsoleError (Error ''Missing environment variables: SUPABASE_URL, SUPABASE_SERVICE_ROLE_KEY, FIREBASE_WEB_API_KEY'')],
      Resolved \<lparr>status = 500, headers = corsHeaders,
                body = errorEnvelope
                  ''Missing environment variables: SUPABASE_URL, SUPABASE_SERVICE_ROLE_KEY, FIREBASE_WEB_API_KEY''\<rparr>) \<and>
   includesStr ''Missing environment variables: SUPABASE_URL, SUPABASE_SERVICE_ROLE_KEY, FIREBASE_WEB_API_KEY''
     ''SUPABASE_SERVICE_ROLE_KEY''"
proof -
  have m: "method getRequest \<noteq> ''OPTIONS''" by (simp add: getRequest_def)
  have e: "env noStoreUrlWorld ''SUPABASE_URL'' = None"
    by (simp add: noStoreUrlWorld_def demoWorld_def noStoreUrlEnv_def)
  then have p: "\<not> present (env noStoreUrlWorld ''SUPABASE_URL'') \<or>
             \<not> present (env noStoreUrlWorld ''SUPABASE_SERVICE_ROLE_KEY'')"
    by simp
  have e': "env emptyEnvWorld ''SUPABASE_URL'' = None"
    "env emptyEnvWorld ''SUPABASE_SERVICE_ROLE_KEY'' = None"
    by (simp_all add: emptyEnvWorld_def demoWorld_def emptyEnv_def)
  then have p': "\<not> present (env emptyEnvWorld ''SUPABASE_URL'') \<or>
             \<not> present (env emptyEnvWorld ''SUPABASE_SERVICE_ROLE_KEY'')"
    by simp
  have o: "validateEnv noOptions = None" "validateEnv validateOnly = Some True"
    "validateEnv bothOptions = Some True"
    by (simp_all add: noOptions_def validateOnly_def bothOptions_def)
  have f: "filter (\<lambda>k. \<not> present (env emptyEnvWorld k)) requiredEnvVars =
      [''SUPABASE_URL'', ''SUPABASE_SERVICE_ROLE_KEY'', ''FIREBASE_WEB_API_KEY'']"
    by (simp add: requiredEnvVars_def emptyEnvWorld_def demoWorld_def emptyEnv_def)
  have q: "map EnvGet requiredEnvVars =
      [EnvGet ''SUPABASE_URL'', EnvGet ''SUPABASE_SERVICE_ROLE_KEY'', EnvGet ''FIREBASE_WEB_API_KEY'']"
    by (simp add: requiredEnvVars_def)
  from store_configuration_required [OF m p, where opts = noOptions and handler = okHandler]
    store_configuration_required [OF m p, where opts = validateOnly and handler = okHandler]
    store_configuration_required [OF m p', where opts = bothOptions and handler = okHandler]
  show ?thesis unfolding f q using e e' o by simp
qed

section \<open>The get-user endpoint\<close>

lemma withMiddleware_returned:
  "snd (tryBlock w req handler opts) = Inr r \<Longrightarrow>
   snd (withMiddleware w req handler opts) = Resolved r"
  by (cases "tryBlock w req handler opts") (simp add: withMiddleware_def)

lemma createSuccessResponse_eq:
  "createSuccessResponse v st [] = \<lparr>status = st, headers = corsHeaders, body = Json v\<rparr>"
  by (simp add: createSuccessResponse_def spread_Nil)

lemma st_forbidden: "specStatus ''Forbidden: You can only access your own user data'' = 403"
  by (simp add: specStatus_def)

lemma getUserHandler_found:
  assumes "u ''id'' = Some userId" and "userId \<noteq> []"
    and "usersSelect w client ''id'' (JStr userId) = \<lparr>dbData = Some row, dbError = None\<rparr>"
  shows "snd (getUserHandler w req \<lparr>firebaseUser = Some account, supabaseClient = client, url = u\<rparr>) =
     (if row_firebase_uid row \<noteq> JStr (localId account)
      then Inl (Error ''Forbidden: You can only access your own user data'')
      else Inr \<lparr>status = 200, headers = corsHeaders,
                body = Json (JObj
                  [(''success'', JBool True),
                   (''user'', JObj [(''id'', row_id row), (''name'', row_name row),
                                    (''email'', row_email row),
                                    (''firebase_uid'', row_firebase_uid row),
                                    (''created_at'', row_created_at row),
                                    (''updated_at'', row_updated_at row)]),
                   (''authenticated_as'', JObj [(''email'', JStr (email account)),
                                                (''firebase_uid'', JStr (localId account))])])\<rparr>)"
  using assms
  by (simp add: getUserHandler_def getRequiredQueryParam_def selectSingle_def eff_defs Let_def
      createSuccessResponse_eq sanitizeUserData_def object_def List.map_filter_simps)


text \<open>
  C7. Take a get-user request that is authenticated (it is not a preflight, the
  configuration is valid, the client is built and the token is verified as an account)
  and that names a stored record (the \<open>id\<close> parameter is present and the data store
  returns a row for it). If the \<open>firebase_uid\<close> of the row differs from the identifier
  of the account, the response has status 403 and its message contains \<open>Forbidden\<close>. If
  they are equal, the response has status 200 and its \<open>user\<close> object has the fields
  \<open>id\<close>, \<open>name\<close>, \<open>email\<close>, \<open>firebase_uid\<close>, \<open>created_at\<close> and \<open>updated_at\<close> of the row,
  and no other: the other columns of the row do not appear.
\<close>

theorem get_user_ownership:
  assumes "method req \<noteq> ''OPTIONS''" and "snd (validateEnvStep w) = Inr ()"
    and "snd (createSupabaseClient w) = Inr client"
    and "snd (extractAndVerifyToken w req) = Inr account"
    and "searchParams req ''id'' = Some userId" and "userId \<noteq> []"
    and "usersSelect w client ''id'' (JStr userId) = \<lparr>dbData = Some row, dbError = None\<rparr>"
  shows
    "(row_firebase_uid row \<noteq> JStr (localId account) \<longrightarrow>
        snd (getUser w req) =
          Resolved \<lparr>status = 403, headers = corsHeaders,
                    body = errorEnvelope ''Forbidden: You can only access your own user data''\<rparr> \<and>
        includesStr ''Forbidden: You can only access your own user data'' ''Forbidden'') \<and>
     (row_firebase_uid row = JStr (localId account) \<longrightarrow>
        snd (getUser w req) =
          Resolved \<lparr>status = 200, headers = corsHeaders,
                    body = Json (JObj
                      [(''success'', JBool True),
                       (''user'', JObj [(''id'', row_id row), (''name'', row_name row),
                                        (''email'', row_email row),
                                        (''firebase_uid'', row_firebase_uid row),
                                        (''created_at'', row_created_at row),
                                        (''updated_at'', row_updated_at row)]),
                       (''authenticated_as'', JObj [(''email'', JStr (email account)),
                                                    (''firebase_uid'', JStr (localId account))])])\<rparr>)"
proof -
  let ?opts = "\<lparr>requireAuth = Some True, validateEnv = Some True\<rparr>"
  have "snd (tryBlock w req (getUserHandler w) ?opts) =
      snd (getUserHandler w req \<lparr>firebaseUser = Some account, supabaseClient = client,
                                  url = searchParams req\<rparr>)"
    using assms(2,4) by (subst tryBlock_reaches_auth [OF assms(1) _ assms(3)]) simp_all
  then have t: "snd (tryBlock w req (getUserHandler w) ?opts) =
     (if row_firebase_uid row \<noteq> JStr (localId account)
      then Inl (Error ''Forbidden: You can only access your own user data'')
      else Inr \<lparr>status = 200, headers = corsHeaders,
                body = Json (JObj
                  [(''success'', JBool True),
                   (''user'', JObj [(''id'', row_id row), (''name'', row_name row),
                                    (''email'', row_email row),
                                    (''firebase_uid'', row_firebase_uid row),
                                    (''created_at'', row_created_at row),
                                    (''updated_at'', row_updated_at row)]),
                   (''authenticated_as'', JObj [(''email'', JStr (email account)),
                                                (''firebase_uid'', JStr (localId account))])])\<rparr>)"
    using getUserHandler_found [where u = "searchParams req" and req = req and account = account,
        OF assms(5,6,7)] by simp
  show ?thesis
  proof (cases "row_firebase_uid row = JStr (localId account)")
    case True
    with t show ?thesis by (simp add: getUser_def withMiddleware_returned)
  next
    case False
    with t have "snd (getUser w req) =
        snd (catchBlock (Error ''Forbidden: You can only access your own user data''))"
      by (simp add: getUser_def withMiddleware_caught)
    with False show ?thesis
      unfolding catchBlock_Error st_forbidden by simp
  qed
qed

text \<open>C7, for the account \<open>uid-ann\<close>: at a row owned by \<open>uid-bob\<close>, and at her own row,
  whose \<open>password_hash\<close> column is not in the response.\<close>

theorem get_user_ownership_witness:
  "row_firebase_uid foreignRow \<noteq> JStr (localId demoAccount) \<and>
   snd (getUser foreignRowWorld getRequest) =
     Resolved \<lparr>status = 403, headers = corsHeaders,
               body = errorEnvelope ''Forbidden: You can only access your own user data''\<rparr> \<and>
   row_firebase_uid demoRow = JStr (localId demoAccount) \<and>
   row_other demoRow = [(''password_hash'', JStr ''secret'')] \<and>
   snd (getUser demoWorld getRequest) =
     Resolved \<lparr>status = 200, headers = corsHeaders,
               body = Json (JObj
                 [(''success'', JBool True),
                  (''user'', JObj [(''id'', JNum 7), (''name'', JStr ''Ann''),
                                   (''email'', JStr ''ann@example.com''),
                                   (''firebase_uid'', JStr ''uid-ann''),
                                   (''created_at'', JStr ''2024-01-01''),
                                   (''updated_at'', JNull)]),
                  (''authenticated_as'', JObj [(''email'', JStr ''ann@example.com''),
                                               (''firebase_uid'', JStr ''uid-ann'')])])\<rparr>"
proof -
  let ?client = "\<lparr>supabaseUrl = ''https://db.example'', supabaseKey = ''service-key''\<rparr>"
  have m: "method getRequest \<noteq> ''OPTIONS''" by (simp add: getRequest_def)
  have v: "snd (validateEnvStep foreignRowWorld) = Inr ()" "snd (validateEnvStep demoWorld) = Inr ()"
    by (simp_all add: validateEnvStep_def requiredEnvVars_def foreignRowWorld_def demoWorld_def
        fullEnv_def)
  have c: "snd (createSupabaseClient foreignRowWorld) = Inr ?client"
    "snd (createSupabaseClient demoWorld) = Inr ?client"
    by (simp_all add: createSupabaseClient_def createClient_def foreignRowWorld_def
        demoWorld_def fullEnv_def eff_defs)
  have k: "env foreignRowWorld ''FIREBASE_WEB_API_KEY'' = Some ''web-key''"
    "env demoWorld ''FIREBASE_WEB_API_KEY'' = Some ''web-key''"
    by (simp_all add: foreignRowWorld_def demoWorld_def fullEnv_def)
  have n: "''web-key'' \<noteq> []" by simp
  have t: "trim (drop 7 ''Bearer abc'') = ''abc''" by (simp add: trim_def isWhiteSpace_def)
  have "snd (verifyFirebaseToken foreignRowWorld ''abc'') = Inr demoAccount"
    "snd (verifyFirebaseToken demoWorld ''abc'') = Inr demoAccount"
    using verifyFirebaseToken_configured [OF k(1) n, of "''abc''"]
      verifyFirebaseToken_configured [OF k(2) n, of "''abc''"]
    by (simp_all add: foreignRowWorld_def demoWorld_def)
  then have a: "snd (extractAndVerifyToken foreignRowWorld getRequest) = Inr demoAccount"
    "snd (extractAndVerifyToken demoWorld getRequest) = Inr demoAccount"
    using t by (simp_all add: extractAndVerifyToken_cases getRequest_def)
  have q: "searchParams getRequest ''id'' = Some ''7''" by (simp add: getRequest_def idQuery_def)
  have i: "''7'' \<noteq> []" by simp
  have r: "usersSelect foreignRowWorld ?client ''id'' (JStr ''7'') =
             \<lparr>dbData = Some foreignRow, dbError = None\<rparr>"
    "usersSelect demoWorld ?client ''id'' (JStr ''7'') = \<lparr>dbData = Some demoRow, dbError = None\<rparr>"
    by (simp_all add: foreignRowWorld_def demoWorld_def)
  from get_user_ownership [OF m v(1) c(1) a(1) q i r(1)]
    get_user_ownership [OF m v(2) c(2) a(2) q i r(2)]
  show ?thesis by (simp add: foreignRow_def demoRow_def demoAccount_def)
qed

section \<open>The login endpoint\<close>

lemma tryBlock_without_auth:
  assumes "method req \<noteq> ''OPTIONS''"
    and "validateEnv opts = Some True \<longrightarrow> snd (validateEnvStep w) = Inr ()"
    and "snd (createSupabaseClient w) = Inr client"
    and "requireAuth opts \<noteq> Some True"
  shows "snd (tryBlock w req handler opts) =
     snd (handler req \<lparr>firebaseUser = None, supabaseClient = client, url = searchParams req\<rparr>)"
proof -
  obtain l1 where c: "createSupabaseClient w = (l1, Inr client)"
    using assms(3) by (cases "createSupabaseClient w") simp
  show ?thesis
  proof (cases "validateEnv opts = Some True")
    case True
    with assms(2) obtain l0 where v: "validateEnvStep w = (l0, Inr ())"
      by (cases "validateEnvStep w") simp
    from True v c assms(1,4) show ?thesis
      by (simp add: tryBlock_def handleCorsPreflightRequest_def bindEff_def returnEff_def
          split: sum.splits prod.splits)
  next
    case False
    with c assms(1,4) show ?thesis
      by (simp add: tryBlock_def handleCorsPreflightRequest_def bindEff_def returnEff_def
          split: sum.splits prod.splits)
  qed
qed

lemma loginHandler_rejected:
  assumes "jsonBody req = Inr (JObj ps)"
    and "truthy (map_of ps ''email'')" and "truthy (map_of ps ''password'')"
    and "env w ''FIREBASE_WEB_API_KEY'' = Some key" and "key \<noteq> []"
    and "signInWithPassword w key
           (object [(''email'', map_of ps ''email''), (''password'', map_of ps ''password''),
                    (''returnSecureToken'', Some (JBool True))]) = NotOk m"
  shows "snd (loginHandler w req ctx) = Inl (Error (orDefault m ''Invalid login credentials''))"
  using assms
  by (simp add: loginHandler_def validateRequiredFields_def authenticateWithFirebase_def
      eff_defs Let_def)

lemma orDefault_nonempty: "d \<noteq> [] \<Longrightarrow> orDefault m d \<noteq> []"
  by (cases m) auto

lemma login_rejected:
  assumes "method req \<noteq> ''OPTIONS''" and "snd (validateEnvStep w) = Inr ()"
    and "snd (createSupabaseClient w) = Inr client"
    and "jsonBody req = Inr (JObj ps)"
    and "truthy (map_of ps ''email'')" and "truthy (map_of ps ''password'')"
    and "env w ''FIREBASE_WEB_API_KEY'' = Some key" and "key \<noteq> []"
    and "signInWithPassword w key
           (object [(''email'', map_of ps ''email''), (''password'', map_of ps ''password''),
                    (''returnSecureToken'', Some (JBool True))]) = NotOk m"
  shows "snd (login w req) =
     Resolved \<lparr>status = specStatus (orDefault m ''Invalid login credentials''),
               headers = corsHeaders,
               body = errorEnvelope (orDefault m ''Invalid login credentials'')\<rparr>"
proof -
  let ?opts = "\<lparr>requireAuth = Some False, validateEnv = Some True\<rparr>"
  have "snd (tryBlock w req (loginHandler w) ?opts) =
      Inl (Error (orDefault m ''Invalid login credentials''))"
    using assms(2)
    by (subst tryBlock_without_auth [OF assms(1) _ assms(3)])
       (simp_all add: loginHandler_rejected [OF assms(4-9)])
  moreover have "orDefault m ''Invalid login credentials'' \<noteq> []"
    by (rule orDefault_nonempty) simp
  ultimately show ?thesis
    by (simp add: login_def withMiddleware_caught catchBlock_Error)
qed

lemma st_invalid_password: "specStatus ''INVALID_PASSWORD'' = 500"
  by (simp add: specStatus_def)


text \<open>The inlined login endpoint answers the same refusal with status 401.\<close>

lemma inlined_login_wrong_password_is_401:
  "snd (loginInlined wrongPasswordWorld loginRequest) =
     \<lparr>status = 401,
      headers = registerCorsHeaders @ [(''Content-Type'', ''application/json'')],
      body = errorEnvelope ''INVALID_PASSWORD''\<rparr>"
  by (simp add: loginInlined_def loginInlinedTry_def loginRequest_def wrongPasswordWorld_def
      demoWorld_def fullEnv_def eff_defs jsonResponse_def spread_def registerCorsHeaders_def
      object_def List.map_filter_simps errorEnvelope_def Let_def)

text \<open>
  C9 at a login with well-formed fields and a password the provider refuses with
  \<open>INVALID_PASSWORD\<close>: the body is the error envelope and holds no token, but the status
  is 500, neither 401 nor 400.
\<close>

theorem wrong_password_is_500:
  "signInWithPassword wrongPasswordWorld ''web-key''
     (JObj [(''email'', JStr ''ann@example.com''), (''password'', JStr ''not-the-password''),
            (''returnSecureToken'', JBool True)]) = NotOk (Some ''INVALID_PASSWORD'') \<and>
   login wrongPasswordWorld loginRequest =
     ([EnvGet ''SUPABASE_URL'', EnvGet ''SUPABASE_SERVICE_ROLE_KEY'', EnvGet ''FIREBASE_WEB_API_KEY'',
       EnvGet ''SUPABASE_URL'', EnvGet ''SUPABASE_SERVICE_ROLE_KEY'',
       CreateClient ''https://db.example'' ''service-key'', HandlerCall,
       EnvGet ''FIREBASE_WEB_API_KEY'',
       Fetch SignInWithPassword ''web-key''
         (JObj [(''email'', JStr ''ann@example.com''), (''password'', JStr ''not-the-password''),
                (''returnSecureToken'', JBool True)]),
       ConsoleError (Error ''INVALID_PASSWORD'')],
      Resolved \<lparr>status = 500, headers = corsHeaders, body = errorEnvelope ''INVALID_PASSWORD''\<rparr>)"
  by (simp add: login_def withMiddleware_def tryBlock_def handleCorsPreflightRequest_def
      loginRequest_def validateEnvStep_def requiredEnvVars_def createSupabaseClient_def
      createClient_def loginHandler_def validateRequiredFields_def authenticateWithFirebase_def
      wrongPasswordWorld_def demoWorld_def fullEnv_def eff_defs catchBlock_Error
      st_invalid_password object_def List.map_filter_simps Let_def)

section \<open>The compensation of a failed registration\<close>

lemma registerHeaders:
  "spread registerCorsHeaders [(''Content-Type'', ''application/json'')] =
     registerCorsHeaders @ [(''Content-Type'', ''application/json'')]"
  by (simp add: spread_def registerCorsHeaders_def)


text \<open>
  C8. Take a registration request that passes the checks of its fields, with the
  provider's key configured, for which the sign-up succeeds, the client is built and
  the insert into the data store reports an error. Then the register endpoint calls the
  provider's account-deletion endpoint exactly once, with the token the sign-up has just
  issued, after the insert and before anything else; the response has status 500, and
  its message is the database error (or the message of the deletion call, when that
  call itself raises).
\<close>

theorem register_compensation:
  assumes "method req \<noteq> ''OPTIONS''"
    and "jsonBody req = Inr parsed" and "parsed \<noteq> JNull"
    and "name = getProp parsed ''name''" and "truthy name"
    and "mail = getProp parsed ''email''" and "truthy mail"
    and "password = getProp parsed ''password''" and "truthy password"
    and "\<not> lessThan6 w (case password of None \<Rightarrow> None | Some p \<Rightarrow> lengthOf p)"
    and "env w ''FIREBASE_WEB_API_KEY'' = Some key" and "key \<noteq> []"
    and "payload = object [(''email'', mail), (''password'', password), (''displayName'', name),
                          (''returnSecureToken'', Some (JBool True))]"
    and "signUp w key payload = Ok issued"
    and "u = nullish (env w ''SUPABASE_URL'')" and "k = nullish (env w ''SUPABASE_SERVICE_ROLE_KEY'')"
    and "createClientError w u k = None"
    and "row = object [(''name'', name), (''email'', mail),
                       (''firebase_uid'', Some (JStr (accountId issued)))]"
    and "dbError (usersInsert w \<lparr>supabaseUrl = u, supabaseKey = k\<rparr> row) = Some m"
    and "removal = JObj [(''idToken'', JStr (idToken issued))]"
    and "msg = (case accountsDelete w key removal of Raised m' \<Rightarrow> m' | NotOk x \<Rightarrow> ''Database error: '' @ m
                | Ok x \<Rightarrow> ''Database error: '' @ m)"
  shows "register w req =
     ([EnvGet ''FIREBASE_WEB_API_KEY'', Fetch SignUp key payload,
       EnvGet ''SUPABASE_URL'', EnvGet ''SUPABASE_SERVICE_ROLE_KEY'', CreateClient u k,
       Insert row, Fetch AccountsDelete key removal, ConsoleError (Error msg)],
      \<lparr>status = 500,
       headers = registerCorsHeaders @ [(''Content-Type'', ''application/json'')],
       body = errorEnvelope
         (if msg = [] then ''Internal server error during registration'' else msg)\<rparr>) \<and>
     filter isAccountsDelete (fst (register w req)) = [Fetch AccountsDelete key removal]"
proof -
  have t: "registerTry w req =
     ([EnvGet ''FIREBASE_WEB_API_KEY'', Fetch SignUp key payload,
       EnvGet ''SUPABASE_URL'', EnvGet ''SUPABASE_SERVICE_ROLE_KEY'', CreateClient u k,
       Insert row, Fetch AccountsDelete key removal], Inl (Error msg))"
    using assms(2-12) assms(14) [unfolded assms(13)] assms(17) [unfolded assms(15,16)]
      assms(19) [unfolded assms(18) assms(15,16)]
    unfolding assms(13,15,16,18,20,21)
    by (simp add: registerTry_def eff_defs Let_def createClient_def object_def
        List.map_filter_simps split: fetched.splits)
  then have r: "register w req =
     ([EnvGet ''FIREBASE_WEB_API_KEY'', Fetch SignUp key payload,
       EnvGet ''SUPABASE_URL'', EnvGet ''SUPABASE_SERVICE_ROLE_KEY'', CreateClient u k,
       Insert row, Fetch AccountsDelete key removal, ConsoleError (Error msg)],
      \<lparr>status = 500,
       headers = registerCorsHeaders @ [(''Content-Type'', ''application/json'')],
       body = errorEnvelope
         (if msg = [] then ''Internal server error during registration'' else msg)\<rparr>)"
    using assms(1)
    by (simp add: register_def jsonResponse_def registerHeaders object_def
        List.map_filter_simps errorEnvelope_def)
  then show ?thesis by simp
qed

text \<open>C8, at a registration whose insert fails with \<open>duplicate key\<close>.\<close>

theorem register_compensation_witness:
  "signUp insertFailsWorld ''web-key''
     (JObj [(''email'', JStr ''ann@example.com''), (''password'', JStr ''long-enough''),
            (''displayName'', JStr ''Ann''), (''returnSecureToken'', JBool True)]) = Ok demoBundle \<and>
   dbError (usersInsert insertFailsWorld
     \<lparr>supabaseUrl = ''https://db.example'', supabaseKey = ''service-key''\<rparr>
     (JObj [(''name'', JStr ''Ann''), (''email'', JStr ''ann@example.com''),
            (''firebase_uid'', JStr ''uid-ann'')])) = Some ''duplicate key'' \<and>
   register insertFailsWorld registerRequest =
     ([EnvGet ''FIREBASE_WEB_API_KEY'',
       Fetch SignUp ''web-key''
         (JObj [(''email'', JStr ''ann@example.com''), (''password'', JStr ''long-enough''),
                (''displayName'', JStr ''Ann''), (''returnSecureToken'', JBool True)]),
       EnvGet ''SUPABASE_URL'', EnvGet ''SUPABASE_SERVICE_ROLE_KEY'',
       CreateClient ''https://db.example'' ''service-key'',
       Insert (JObj [(''name'', JStr ''Ann''), (''email'', JStr ''ann@example.com''),
                     (''firebase_uid'', JStr ''uid-ann'')]),
       Fetch AccountsDelete ''web-key'' (JObj [(''idToken'', JStr ''fresh-token'')]),
       ConsoleError (Error ''Database error: duplicate key'')],
      \<lparr>status = 500,
       headers = registerCorsHeaders @ [(''Content-Type'', ''application/json'')],
       body = errorEnvelope ''Database error: duplicate key''\<rparr>) \<and>
   filter isAccountsDelete (fst (register insertFailsWorld registerRequest)) =
     [Fetch AccountsDelete ''web-key'' (JObj [(''idToken'', JStr ''fresh-token'')])]"
proof -
  let ?parsed = "JObj [(''name'', JStr ''Ann''), (''email'', JStr ''ann@example.com''),
                       (''password'', JStr ''long-enough'')]"
  let ?payload = "JObj [(''email'', JStr ''ann@example.com''), (''password'', JStr ''long-enough''),
                        (''displayName'', JStr ''Ann''), (''returnSecureToken'', JBool True)]"
  let ?row = "JObj [(''name'', JStr ''Ann''), (''email'', JStr ''ann@example.com''),
                    (''firebase_uid'', JStr ''uid-ann'')]"
  let ?removal = "JObj [(''idToken'', JStr ''fresh-token'')]"
  have h1: "method registerRequest \<noteq> ''OPTIONS''"
    and h2: "jsonBody registerRequest = Inr ?parsed" and h3: "?parsed \<noteq> JNull"
    by (simp_all add: registerRequest_def)
  have h4: "Some (JStr ''Ann'') = getProp ?parsed ''name''"
    and h5: "truthy (Some (JStr ''Ann''))"
    and h6: "Some (JStr ''ann@example.com'') = getProp ?parsed ''email''"
    and h7: "truthy (Some (JStr ''ann@example.com''))"
    and h8: "Some (JStr ''long-enough'') = getProp ?parsed ''password''"
    and h9: "truthy (Some (JStr ''long-enough''))"
    by simp_all
  have h10: "\<not> lessThan6 insertFailsWorld
               (case Some (JStr ''long-enough'') of None \<Rightarrow> None | Some p \<Rightarrow> lengthOf p)"
    by simp
  have h11: "env insertFailsWorld ''FIREBASE_WEB_API_KEY'' = Some ''web-key''"
    and h12: "''web-key'' \<noteq> []"
    by (simp_all add: insertFailsWorld_def demoWorld_def fullEnv_def)
  have h13: "?payload = object [(''email'', Some (JStr ''ann@example.com'')),
                                (''password'', Some (JStr ''long-enough'')),
                                (''displayName'', Some (JStr ''Ann'')),
                                (''returnSecureToken'', Some (JBool True))]"
    by (simp add: object_def List.map_filter_simps)
  have h14: "signUp insertFailsWorld ''web-key'' ?payload = Ok demoBundle"
    by (simp add: insertFailsWorld_def demoWorld_def)
  have h15: "''https://db.example'' = nullish (env insertFailsWorld ''SUPABASE_URL'')"
    and h16: "''service-key'' = nullish (env insertFailsWorld ''SUPABASE_SERVICE_ROLE_KEY'')"
    and h17: "createClientError insertFailsWorld ''https://db.example'' ''service-key'' = None"
    by (simp_all add: insertFailsWorld_def demoWorld_def fullEnv_def nullish_def)
  have h18: "?row = object [(''name'', Some (JStr ''Ann'')),
                            (''email'', Some (JStr ''ann@example.com'')),
                            (''firebase_uid'', Some (JStr (accountId demoBundle)))]"
    by (simp add: object_def List.map_filter_simps demoBundle_def)
  have h19: "dbError (usersInsert insertFailsWorld
               \<lparr>supabaseUrl = ''https://db.example'', supabaseKey = ''service-key''\<rparr> ?row) =
             Some ''duplicate key''"
    by (simp add: insertFailsWorld_def demoWorld_def)
  have h20: "?removal = JObj [(''idToken'', JStr (idToken demoBundle))]"
    by (simp add: demoBundle_def)
  have h21: "''Database error: duplicate key'' =
      (case accountsDelete insertFailsWorld ''web-key'' ?removal of
         Raised m' \<Rightarrow> m' | NotOk x \<Rightarrow> ''Database error: '' @ ''duplicate key''
       | Ok x \<Rightarrow> ''Database error: '' @ ''duplicate key'')"
    by (simp add: insertFailsWorld_def demoWorld_def)
  from register_compensation [OF h1 h2 h3 h4 h5 h6 h7 h8 h9 h10 h11 h12 h13 h14 h15 h16 h17
      h18 h19 h20 h21]
  show ?thesis using h14 h19 by simp
qed

end
